theory Spec2Isabelle
  imports Main
begin

section \<open>Data model of the wallet service\<close>

text \<open>
  \<open>src/services/WalletService.ts\<close>: the enum \<open>ChainType\<close> with its string values, the
  networks of the indexing SDK (a string enum, kept as strings), and the interfaces
  \<open>Token\<close>, \<open>TokenBalance\<close> and \<open>Transaction\<close>.
\<close>

datatype ChainType = ETHEREUM | POLYGON | SOLANA | BINANCE

fun chainTypeStr :: "ChainType \<Rightarrow> string" where
  "chainTypeStr ETHEREUM = ''ethereum''"
| "chainTypeStr POLYGON = ''polygon''"
| "chainTypeStr SOLANA = ''solana''"
| "chainTypeStr BINANCE = ''binance''"

type_synonym Network = string

definition ETH_MAINNET :: Network where "ETH_MAINNET = ''eth-mainnet''"
definition ETH_GOERLI :: Network where "ETH_GOERLI = ''eth-goerli''"
definition MATIC_MAINNET :: Network where "MATIC_MAINNET = ''polygon-mainnet''"
definition MATIC_MUMBAI :: Network where "MATIC_MUMBAI = ''polygon-mumbai''"

text \<open>\<open>CHAIN_NETWORKS\<close>: only ethereum and polygon have an entry.\<close>

fun CHAIN_NETWORKS :: "ChainType \<Rightarrow> (string \<times> Network) list option" where
  "CHAIN_NETWORKS ETHEREUM = Some [(''Ethereum'', ETH_MAINNET), (''Goerli'', ETH_GOERLI)]"
| "CHAIN_NETWORKS POLYGON = Some [(''Polygon'', MATIC_MAINNET), (''Mumbai'', MATIC_MUMBAI)]"
| "CHAIN_NETWORKS SOLANA = None"
| "CHAIN_NETWORKS BINANCE = None"

record Token =
  symbol :: string
  token_name :: string
  decimals :: nat
  token_address :: string
  token_chainType :: ChainType
  logoURI :: "string option"

record TokenBalance =
  token :: Token
  balance :: string
  balance_value :: string

datatype TxStatus = pending | confirmed | failed

text \<open>
  The annotations of the source are erased when it runs, and the browser screen hands the
  properties of an untyped request to \<open>sendTransaction\<close> and \<open>signMessage\<close> as they are.
  An argument is therefore \<open>undefined\<close>, \<open>null\<close>, a string, or any other value (a
  number, an object), kept with what a template literal prints for it; \<open>jsToString\<close> is
  that print.
\<close>

datatype JsArg = JsUndefined | JsNull | JsString string | JsOther string

fun jsToString :: "JsArg \<Rightarrow> string" where
  "jsToString JsUndefined = ''undefined''"
| "jsToString JsNull = ''null''"
| "jsToString (JsString s) = s"
| "jsToString (JsOther printed) = printed"

record Transaction =
  tx_hash :: string
  tx_from :: string
  tx_to :: JsArg
  tx_value :: JsArg
  tx_timestamp :: nat
  tx_status :: TxStatus
  tx_chainType :: ChainType
  tx_network :: Network

text \<open>
  Every \<open>throw new Error(msg)\<close> of the source is the value \<open>Error msg\<close>; the errors of the
  libraries are values of the same type, chosen by the library.
\<close>

datatype Err = Error string

definition WalletNotFoundError :: Err where
  "WalletNotFoundError = Error ''Wallet not found''"

definition InvalidPrivateKeyError :: Err where
  "InvalidPrivateKeyError = Error ''Invalid private key''"

definition InvalidMnemonicError :: Err where
  "InvalidMnemonicError = Error ''Invalid mnemonic phrase''"

definition ProviderNotFoundError :: "ChainType \<Rightarrow> Network \<Rightarrow> Err" where
  "ProviderNotFoundError chainType network =
     Error (''Provider not found for '' @ chainTypeStr chainType @ '' '' @ network)"

definition AlchemyNotFoundError :: "ChainType \<Rightarrow> Network \<Rightarrow> Err" where
  "AlchemyNotFoundError chainType network =
     Error (''Alchemy instance not found for '' @ chainTypeStr chainType @ '' '' @ network)"

subsection \<open>The objects of the libraries\<close>

text \<open>
  A key pair of the signing library (\<open>ethers.Wallet\<close>): the two properties the service
  reads. The clients the service stores in its two tables are kept as the constructor
  call that made them.
\<close>

record Wallet =
  privateKey :: string
  address :: string

datatype Provider = DefaultProvider string | JsonRpcProvider string

datatype Alchemy = Alchemy string Network

record RawTokenBalance =
  contractAddress :: string
  tokenBalance :: "string option"

record TokenMetadata =
  md_symbol :: "string option"
  md_name :: "string option"
  md_decimals :: "nat option"
  md_logo :: "string option"

record Transfer =
  tr_hash :: string
  tr_from :: string
  tr_to :: string
  tr_value :: "string option"
  tr_metadata :: "string option option"

text \<open>
  What the libraries answer is not decided by this repository: each call the service
  makes to a library is a field of \<open>Ext\<close>, with \<open>Inl\<close> for a call that throws (or whose
  promise rejects).
\<close>

record Ext =
  Wallet_createRandom :: "Err + Wallet"
  Wallet_new :: "string \<Rightarrow> Err + Wallet"
  Wallet_fromMnemonic :: "string \<Rightarrow> Err + Wallet"
  Wallet_signMessage :: "Wallet \<Rightarrow> JsArg \<Rightarrow> Err + string"
  AsyncStorage_getItem_error :: "string \<Rightarrow> Err option"
  AsyncStorage_setItem_error :: "string \<Rightarrow> string \<Rightarrow> Err option"
  provider_getBalance :: "Provider \<Rightarrow> string \<Rightarrow> Err + int"
  signer_sendTransaction :: "Provider \<Rightarrow> Wallet \<Rightarrow> JsArg \<Rightarrow> int \<Rightarrow> Err + string"
  parseEther :: "JsArg \<Rightarrow> Err + int"
  formatEther :: "int \<Rightarrow> string"
  formatEtherStr :: "string \<Rightarrow> Err + string"
  alchemy_getTokenBalances :: "Alchemy \<Rightarrow> string \<Rightarrow> Err + RawTokenBalance list"
  alchemy_getTokenMetadata :: "Alchemy \<Rightarrow> string \<Rightarrow> Err + TokenMetadata"
  alchemy_getAssetTransfers :: "Alchemy \<Rightarrow> string \<Rightarrow> Err + Transfer list"
  Date_now :: nat
  Date_getTime :: "string \<Rightarrow> nat"
  wc_init_error :: "Err option"
  wc_approveSession_error :: "nat \<Rightarrow> Err option"
  wc_respondSessionRequest_error :: "string \<Rightarrow> nat \<Rightarrow> string \<Rightarrow> Err option"

subsection \<open>Effects\<close>

text \<open>
  Every call that leaves the repository's own code is written to a trace, in the order
  the code makes it: the console, the key-value store, the chain clients, the dialogs,
  the pairing client and the embedded page. \<open>RegistryCall\<close> records a call of the
  browser screen into the wallet service, with the arguments it passes.
\<close>

datatype RegistryOp =
    OpHasWallet ChainType
  | OpGetWalletAddress ChainType
  | OpCreateWallet ChainType
  | OpSendTransaction ChainType Network JsArg JsArg
  | OpSignMessage ChainType JsArg

record Namespace =
  accounts :: "string list"
  methods :: "string list"
  events :: "string list"

datatype RpcPayload = RpcResult "string list" | RpcError int string

datatype Event =
    ConsoleError string
  | StorageGetItem string
  | StorageSetItem string string
  | ProviderGetBalance Provider string
  | SignerSendTransaction Provider string JsArg int
  | WalletSignMessage string JsArg
  | AlchemyGetTokenBalances Alchemy string
  | AlchemyGetTokenMetadata Alchemy string
  | AlchemyGetAssetTransfers Alchemy string
  | AlertShown string string "string list"
  | RegistryCall RegistryOp
  | ApproveSession nat "(string \<times> Namespace) list"
  | RejectSession nat int string
  | RespondSessionRequest string nat string
  | InjectResponse nat RpcPayload

text \<open>
  The state: the three private fields of the \<open>WalletService\<close> singleton, the persisted
  key-value store, the trace, and the state of the browser screen: the \<open>useState\<close> cells
  \<open>isConnecting\<close>, \<open>connectedDapp\<close> and \<open>walletClient\<close> (whether it holds a client) and
  the ref \<open>webViewRef\<close> (whether \<open>webViewRef.current\<close> is set).
\<close>

record World =
  wallets :: "ChainType \<Rightarrow> Wallet option"
  providers :: "string \<rightharpoonup> Provider"
  alchemyInstances :: "string \<rightharpoonup> Alchemy"
  storage :: "string \<rightharpoonup> string"
  trace :: "Event list"
  isConnecting :: bool
  connectedDapp :: "string option"
  walletClient :: bool
  webViewRef :: bool

definition emit :: "Event \<Rightarrow> World \<Rightarrow> World" where
  "emit e w = w\<lparr>trace := trace w @ [e]\<rparr>"

text \<open>The state of a fresh process: the field initialisers of the class and the screen.\<close>

definition initialWorld :: "(string \<rightharpoonup> string) \<Rightarrow> World" where
  "initialWorld st =
     \<lparr>wallets = (\<lambda>_. None), providers = Map.empty, alchemyInstances = Map.empty,
      storage = st, trace = [], isConnecting = False, connectedDapp = None,
      walletClient = False, webViewRef = False\<rparr>"

section \<open>The wallet service\<close>

definition storageKey :: "ChainType \<Rightarrow> string" where
  "storageKey chainType = ''wallet_'' @ chainTypeStr chainType"

definition clientKey :: "ChainType \<Rightarrow> Network \<Rightarrow> string" where
  "clientKey chainType network = chainTypeStr chainType @ ''_'' @ network"

text \<open>\<open>saveWallet\<close>: a failing \<open>setItem\<close> is caught and logged; nothing is rethrown.\<close>

definition saveWallet :: "Ext \<Rightarrow> World \<Rightarrow> ChainType \<Rightarrow> string \<Rightarrow> World" where
  "saveWallet ext w chainType pk =
     (let w1 = emit (StorageSetItem (storageKey chainType) pk) w in
      case AsyncStorage_setItem_error ext (storageKey chainType) pk of
        Some e \<Rightarrow> emit (ConsoleError ''Failed to save wallet:'') w1
      | None \<Rightarrow> w1\<lparr>storage := (storage w1)(storageKey chainType \<mapsto> pk)\<rparr>)"

definition createWallet :: "Ext \<Rightarrow> World \<Rightarrow> ChainType \<Rightarrow> (Err + string) \<times> World" where
  "createWallet ext w chainType =
     (case Wallet_createRandom ext of
        Inl e \<Rightarrow> (Inl e, w)
      | Inr wallet \<Rightarrow>
          (Inr (address wallet),
           saveWallet ext (w\<lparr>wallets := (wallets w)(chainType := Some wallet)\<rparr>)
             chainType (privateKey wallet)))"

definition importWallet :: "Ext \<Rightarrow> World \<Rightarrow> ChainType \<Rightarrow> string \<Rightarrow> (Err + string) \<times> World" where
  "importWallet ext w chainType pk =
     (case Wallet_new ext pk of
        Inl e \<Rightarrow> (Inl InvalidPrivateKeyError, emit (ConsoleError ''Failed to import wallet:'') w)
      | Inr wallet \<Rightarrow>
          (Inr (address wallet),
           saveWallet ext (w\<lparr>wallets := (wallets w)(chainType := Some wallet)\<rparr>) chainType pk))"

definition importWalletFromMnemonic ::
  "Ext \<Rightarrow> World \<Rightarrow> ChainType \<Rightarrow> string \<Rightarrow> (Err + string) \<times> World" where
  "importWalletFromMnemonic ext w chainType mnemonic =
     (case Wallet_fromMnemonic ext mnemonic of
        Inl e \<Rightarrow>
          (Inl InvalidMnemonicError,
           emit (ConsoleError ''Failed to import wallet from mnemonic:'') w)
      | Inr wallet \<Rightarrow>
          (Inr (address wallet),
           saveWallet ext (w\<lparr>wallets := (wallets w)(chainType := Some wallet)\<rparr>)
             chainType (privateKey wallet)))"

text \<open>
  \<open>getWalletAddress\<close> is \<open>this.wallets[chainType]?.address || null\<close>: an empty address
  is falsy and gives \<open>null\<close> too.
\<close>

definition getWalletAddress :: "World \<Rightarrow> ChainType \<Rightarrow> string option" where
  "getWalletAddress w chainType =
     (case wallets w chainType of
        None \<Rightarrow> None
      | Some wallet \<Rightarrow> if address wallet = [] then None else Some (address wallet))"

definition hasWallet :: "World \<Rightarrow> ChainType \<Rightarrow> bool" where
  "hasWallet w chainType = (wallets w chainType \<noteq> None)"

definition getProvider :: "World \<Rightarrow> ChainType \<Rightarrow> Network \<Rightarrow> Err + Provider" where
  "getProvider w chainType network =
     (case providers w (clientKey chainType network) of
        None \<Rightarrow> Inl (ProviderNotFoundError chainType network)
      | Some p \<Rightarrow> Inr p)"

definition getAlchemyInstance :: "World \<Rightarrow> ChainType \<Rightarrow> Network \<Rightarrow> Err + Alchemy" where
  "getAlchemyInstance w chainType network =
     (case alchemyInstances w (clientKey chainType network) of
        None \<Rightarrow> Inl (AlchemyNotFoundError chainType network)
      | Some a \<Rightarrow> Inr a)"

definition getBalance :: "Ext \<Rightarrow> World \<Rightarrow> ChainType \<Rightarrow> Network \<Rightarrow> (Err + string) \<times> World" where
  "getBalance ext w chainType network =
     (case wallets w chainType of
        None \<Rightarrow> (Inl WalletNotFoundError, w)
      | Some wallet \<Rightarrow>
          (case getProvider w chainType network of
             Inl e \<Rightarrow> (Inl e, w)
           | Inr provider \<Rightarrow>
               (let w1 = emit (ProviderGetBalance provider (address wallet)) w in
                case provider_getBalance ext provider (address wallet) of
                  Inl e \<Rightarrow> (Inl e, w1)
                | Inr b \<Rightarrow> (Inr (formatEther ext b), w1))))"

text \<open>
  The loop of \<open>getTokenBalances\<close>: an entry without a balance is skipped, a failing
  metadata call or a balance that does not format ends the whole operation.
\<close>

fun tokenBalancesLoop ::
  "Ext \<Rightarrow> Alchemy \<Rightarrow> ChainType \<Rightarrow> World \<Rightarrow> RawTokenBalance list \<Rightarrow> TokenBalance list
     \<Rightarrow> (Err + TokenBalance list) \<times> World" where
  "tokenBalancesLoop ext alchemy chainType w [] balances = (Inr balances, w)"
| "tokenBalancesLoop ext alchemy chainType w (tb # tbs) balances =
     (case tokenBalance tb of
        None \<Rightarrow> tokenBalancesLoop ext alchemy chainType w tbs balances
      | Some raw \<Rightarrow>
          if raw = [] then tokenBalancesLoop ext alchemy chainType w tbs balances
          else
            (let w1 = emit (AlchemyGetTokenMetadata alchemy (contractAddress tb)) w in
             case alchemy_getTokenMetadata ext alchemy (contractAddress tb) of
               Inl e \<Rightarrow> (Inl e, w1)
             | Inr metadata \<Rightarrow>
                 (case formatEtherStr ext raw of
                    Inl e \<Rightarrow> (Inl e, w1)
                  | Inr formatted \<Rightarrow>
                      tokenBalancesLoop ext alchemy chainType w1 tbs
                        (balances @
                         [\<lparr>token =
                            \<lparr>symbol = (case md_symbol metadata of
                                         None \<Rightarrow> ''Unknown''
                                       | Some s \<Rightarrow> if s = [] then ''Unknown'' else s),
                             token_name = (case md_name metadata of
                                         None \<Rightarrow> ''Unknown Token''
                                       | Some s \<Rightarrow> if s = [] then ''Unknown Token'' else s),
                             decimals = (case md_decimals metadata of
                                         None \<Rightarrow> 18
                                       | Some d \<Rightarrow> if d = 0 then 18 else d),
                             token_address = contractAddress tb,
                             token_chainType = chainType,
                             logoURI = md_logo metadata\<rparr>,
                           balance = formatted,
                           balance_value = ''0.00''\<rparr>]))))"

definition getTokenBalances ::
  "Ext \<Rightarrow> World \<Rightarrow> ChainType \<Rightarrow> Network \<Rightarrow> (Err + TokenBalance list) \<times> World" where
  "getTokenBalances ext w chainType network =
     (case wallets w chainType of
        None \<Rightarrow> (Inl WalletNotFoundError, w)
      | Some wallet \<Rightarrow>
          if chainType = ETHEREUM \<or> chainType = POLYGON then
            (case getAlchemyInstance w chainType network of
               Inl e \<Rightarrow> (Inl e, w)
             | Inr alchemy \<Rightarrow>
                 (let w1 = emit (AlchemyGetTokenBalances alchemy (address wallet)) w in
                  case alchemy_getTokenBalances ext alchemy (address wallet) of
                    Inl e \<Rightarrow> (Inl e, w1)
                  | Inr tbs \<Rightarrow> tokenBalancesLoop ext alchemy chainType w1 tbs []))
          else (Inr [], w))"

definition sendTransaction ::
  "Ext \<Rightarrow> World \<Rightarrow> ChainType \<Rightarrow> Network \<Rightarrow> JsArg \<Rightarrow> JsArg \<Rightarrow> (Err + Transaction) \<times> World" where
  "sendTransaction ext w chainType network to amount =
     (case wallets w chainType of
        None \<Rightarrow> (Inl WalletNotFoundError, w)
      | Some wallet \<Rightarrow>
          (case getProvider w chainType network of
             Inl e \<Rightarrow> (Inl e, w)
           | Inr provider \<Rightarrow>
               (case parseEther ext amount of
                  Inl e \<Rightarrow> (Inl e, w)
                | Inr wei \<Rightarrow>
                    (let w1 = emit (SignerSendTransaction provider (address wallet) to wei) w in
                     case signer_sendTransaction ext provider wallet to wei of
                       Inl e \<Rightarrow> (Inl e, w1)
                     | Inr h \<Rightarrow>
                         (Inr \<lparr>tx_hash = h, tx_from = address wallet, tx_to = to,
                               tx_value = amount, tx_timestamp = Date_now ext,
                               tx_status = pending, tx_chainType = chainType,
                               tx_network = network\<rparr>, w1)))))"

definition signMessage :: "Ext \<Rightarrow> World \<Rightarrow> ChainType \<Rightarrow> JsArg \<Rightarrow> (Err + string) \<times> World" where
  "signMessage ext w chainType message =
     (case wallets w chainType of
        None \<Rightarrow> (Inl WalletNotFoundError, w)
      | Some wallet \<Rightarrow>
          (Wallet_signMessage ext wallet message,
           emit (WalletSignMessage (address wallet) message) w))"

text \<open>
  The history: each transfer of the indexer becomes a confirmed \<open>Transaction\<close>. Reading
  \<open>transfer.metadata.blockTimestamp\<close> of a transfer without metadata throws.
\<close>

fun transferToTransaction ::
  "Ext \<Rightarrow> ChainType \<Rightarrow> Network \<Rightarrow> Transfer \<Rightarrow> Err + Transaction" where
  "transferToTransaction ext chainType network tr =
     (case tr_metadata tr of
        None \<Rightarrow> Inl (Error ''TypeError'')
      | Some blockTimestamp \<Rightarrow>
          Inr \<lparr>tx_hash = tr_hash tr, tx_from = tr_from tr, tx_to = JsString (tr_to tr),
               tx_value = JsString (case tr_value tr of None \<Rightarrow> ''0'' | Some v \<Rightarrow> v),
               tx_timestamp = (case blockTimestamp of
                                 None \<Rightarrow> Date_now ext
                               | Some ts \<Rightarrow> if ts = [] then Date_now ext
                                            else Date_getTime ext ts),
               tx_status = confirmed, tx_chainType = chainType, tx_network = network\<rparr>)"

fun mapTransfers ::
  "Ext \<Rightarrow> ChainType \<Rightarrow> Network \<Rightarrow> Transfer list \<Rightarrow> Err + Transaction list" where
  "mapTransfers ext chainType network [] = Inr []"
| "mapTransfers ext chainType network (tr # trs) =
     (case transferToTransaction ext chainType network tr of
        Inl e \<Rightarrow> Inl e
      | Inr t \<Rightarrow>
          (case mapTransfers ext chainType network trs of
             Inl e \<Rightarrow> Inl e
           | Inr ts \<Rightarrow> Inr (t # ts)))"

definition getTransactionHistory ::
  "Ext \<Rightarrow> World \<Rightarrow> ChainType \<Rightarrow> Network \<Rightarrow> (Err + Transaction list) \<times> World" where
  "getTransactionHistory ext w chainType network =
     (case wallets w chainType of
        None \<Rightarrow> (Inl WalletNotFoundError, w)
      | Some wallet \<Rightarrow>
          if chainType = ETHEREUM \<or> chainType = POLYGON then
            (case getAlchemyInstance w chainType network of
               Inl e \<Rightarrow> (Inl e, w)
             | Inr alchemy \<Rightarrow>
                 (let w1 = emit (AlchemyGetAssetTransfers alchemy (address wallet)) w in
                  case alchemy_getAssetTransfers ext alchemy (address wallet) of
                    Inl e \<Rightarrow> (Inl e, w1)
                  | Inr trs \<Rightarrow> (mapTransfers ext chainType network trs, w1)))
          else (Inr [], w))"

text \<open>
  \<open>loadWallets\<close>: one \<open>try\<close> around the whole loop over \<open>Object.values(ChainType)\<close>, so
  the first failing read or the first stored key that does not decode ends the loop; a
  missing or empty entry is skipped.
\<close>

fun loadWalletsLoop :: "Ext \<Rightarrow> World \<Rightarrow> ChainType list \<Rightarrow> World" where
  "loadWalletsLoop ext w [] = w"
| "loadWalletsLoop ext w (chainType # rest) =
     (let w1 = emit (StorageGetItem (storageKey chainType)) w in
      case AsyncStorage_getItem_error ext (storageKey chainType) of
        Some e \<Rightarrow> emit (ConsoleError ''Failed to load wallets:'') w1
      | None \<Rightarrow>
          (case storage w1 (storageKey chainType) of
             None \<Rightarrow> loadWalletsLoop ext w1 rest
           | Some pk \<Rightarrow>
               if pk = [] then loadWalletsLoop ext w1 rest
               else
                 (case Wallet_new ext pk of
                    Inl e \<Rightarrow> emit (ConsoleError ''Failed to load wallets:'') w1
                  | Inr wallet \<Rightarrow>
                      loadWalletsLoop ext
                        (w1\<lparr>wallets := (wallets w1)(chainType := Some wallet)\<rparr>) rest)))"

definition loadWallets :: "Ext \<Rightarrow> World \<Rightarrow> World" where
  "loadWallets ext w = loadWalletsLoop ext w [ETHEREUM, POLYGON, SOLANA, BINANCE]"

definition setupProviders :: "World \<Rightarrow> World" where
  "setupProviders w =
     w\<lparr>providers := (providers w)
         (clientKey ETHEREUM ETH_MAINNET \<mapsto> DefaultProvider ''mainnet'',
          clientKey ETHEREUM ETH_GOERLI \<mapsto> DefaultProvider ''goerli'',
          clientKey POLYGON MATIC_MAINNET \<mapsto> JsonRpcProvider ''https://polygon-rpc.com'',
          clientKey POLYGON MATIC_MUMBAI \<mapsto>
            JsonRpcProvider ''https://rpc-mumbai.maticvigil.com''),
       alchemyInstances := (alchemyInstances w)
         (clientKey ETHEREUM ETH_MAINNET \<mapsto> Alchemy ''YOUR_ALCHEMY_API_KEY'' ETH_MAINNET,
          clientKey ETHEREUM ETH_GOERLI \<mapsto> Alchemy ''YOUR_ALCHEMY_API_KEY'' ETH_GOERLI,
          clientKey POLYGON MATIC_MAINNET \<mapsto> Alchemy ''YOUR_ALCHEMY_API_KEY'' MATIC_MAINNET,
          clientKey POLYGON MATIC_MUMBAI \<mapsto> Alchemy ''YOUR_ALCHEMY_API_KEY'' MATIC_MUMBAI)\<rparr>"

definition initialize :: "Ext \<Rightarrow> World \<Rightarrow> World" where
  "initialize ext w = setupProviders (loadWallets ext w)"

section \<open>The browser screen: the session bridge\<close>

text \<open>
  The second part of the source: the mount effect of the browser screen, its handlers
  for the events of the pairing client (\<open>handleSessionProposal\<close>,
  \<open>handleSessionRequest\<close>) and its handler for the messages of the embedded page
  (\<open>handleEthereumRequest\<close>).

  A dialog with buttons suspends its continuation until the user taps. The handlers take
  the user's taps as a list of button texts, one for each dialog with buttons in the
  order the dialogs appear; when the list is used up the user taps nothing more, and a
  text that is not on the dialog starts nothing.

  A handler of the pairing events is a closure of the render that made it
  (\<open>useCallback\<close> with \<open>walletClient\<close> among its dependencies): it reads the
  \<open>walletClient\<close> of that render, not the state cell. The handlers take it as the
  argument \<open>client\<close> (whether the closure holds a client), and reach it through \<open>?.\<close>,
  which skips the call when there is none. \<open>webViewRef\<close> is a ref: whoever reads
  \<open>webViewRef.current\<close> reads the state.
\<close>

record RequiredNamespace =
  rn_chains :: "string list"
  rn_methods :: "string list"
  rn_events :: "string list"

text \<open>
  A proposal \<open>{id, params: {proposer, requiredNamespaces}}\<close>; the object
  \<open>requiredNamespaces\<close> is the list of its entries (its keys are distinct).
\<close>

record Proposal =
  prop_id :: nat
  proposerName :: string
  requiredNamespaces :: "(string \<times> RequiredNamespace) list"

text \<open>
  An element of \<open>request.params\<close>: \<open>null\<close>, a string, or any other value, kept with what
  it prints as and with its properties \<open>to\<close> and \<open>value\<close> (each of them any argument;
  a number has neither, a transaction object may lack either). \<open>paramProps\<close> is the pair
  of property reads \<open>methodParams[0].to\<close> and \<open>methodParams[0].value\<close>, which throw on
  \<open>null\<close> and give \<open>undefined\<close> on a string; \<open>paramArg\<close> is the element itself, passed as
  an argument.
\<close>

datatype Param = ParamNull | ParamString string | ParamValue string JsArg JsArg

fun paramProps :: "Param \<Rightarrow> (JsArg \<times> JsArg) option" where
  "paramProps ParamNull = None"
| "paramProps (ParamString s) = Some (JsUndefined, JsUndefined)"
| "paramProps (ParamValue printed to amount) = Some (to, amount)"

fun paramArg :: "Param \<Rightarrow> JsArg" where
  "paramArg ParamNull = JsNull"
| "paramArg (ParamString s) = JsString s"
| "paramArg (ParamValue printed to amount) = JsOther printed"

text \<open>
  A session request \<open>{id, topic, params: {request: {method, params}}}\<close>. The parameters
  of the request are a list, or are missing (\<open>None\<close>): then reading \<open>methodParams[0]\<close>
  throws.
\<close>

record SessionRequest =
  req_id :: nat
  req_topic :: string
  req_method :: string
  req_params :: "Param list option"

record PageRequest =
  data_id :: nat
  data_method :: string

subsection \<open>Session proposals\<close>

text \<open>
  The path of \<open>handleSessionProposal\<close> once the wallet gate has passed: the address is
  read, every required namespace is answered with the one account
  \<open>eip155:1:<address>\<close>, and the session is approved through \<open>walletClient?.\<close>. A failing
  approval is caught; \<open>finally\<close> clears \<open>isConnecting\<close> on every path.
\<close>

definition approvedNamespaces ::
  "string \<Rightarrow> (string \<times> RequiredNamespace) list \<Rightarrow> (string \<times> Namespace) list" where
  "approvedNamespaces addr required =
     map (\<lambda>(key, namespace).
            (key, \<lparr>accounts = [''eip155:1:'' @ addr],
                   methods = rn_methods namespace,
                   events = rn_events namespace\<rparr>)) required"

definition approveProposal :: "Ext \<Rightarrow> bool \<Rightarrow> World \<Rightarrow> Proposal \<Rightarrow> World" where
  "approveProposal ext client w proposal =
     (let w1 = emit (RegistryCall (OpGetWalletAddress ETHEREUM)) w in
      case getWalletAddress w1 ETHEREUM of
        None \<Rightarrow>
          (emit (AlertShown ''Error'' ''Wallet address not found'' []) w1)
            \<lparr>isConnecting := False\<rparr>
      | Some addr \<Rightarrow>
          (let w2 = w1\<lparr>connectedDapp := Some (proposerName proposal)\<rparr>;
               namespaces = approvedNamespaces addr (requiredNamespaces proposal);
               connected = (\<lambda>w'.
                 (emit (AlertShown ''Connected''
                          (''Connected to '' @ proposerName proposal) []) w')
                   \<lparr>isConnecting := False\<rparr>)
           in if client then
                (let w3 = emit (ApproveSession (prop_id proposal) namespaces) w2 in
                 case wc_approveSession_error ext (prop_id proposal) of
                   Some e \<Rightarrow>
                     (emit (AlertShown ''Connection Error'' ''Failed to connect to dApp'' [])
                        (emit (ConsoleError ''Failed to approve session:'') w3))
                       \<lparr>isConnecting := False\<rparr>
                 | None \<Rightarrow> connected w3)
              else connected w2))"

definition walletRequiredForDapps :: Event where
  "walletRequiredForDapps =
     AlertShown ''Wallet Required''
       ''You need to create or import a wallet before connecting to dApps.''
       [''Cancel'', ''Create Wallet'']"

text \<open>
  The call \<open>handleSessionProposal(proposal)\<close> in the button \<open>Create Wallet\<close> is a call of
  the same closure, with the same \<open>client\<close>.
\<close>

fun handleSessionProposal ::
  "Ext \<Rightarrow> bool \<Rightarrow> World \<Rightarrow> Proposal \<Rightarrow> string list \<Rightarrow> World" where
  "handleSessionProposal ext client w proposal user =
     (let w1 = emit (RegistryCall (OpHasWallet ETHEREUM)) (w\<lparr>isConnecting := True\<rparr>) in
      if \<not> hasWallet w1 ETHEREUM then
        (let w2 = (emit walletRequiredForDapps w1)\<lparr>isConnecting := False\<rparr> in
         case user of
           [] \<Rightarrow> w2
         | tap # rest \<Rightarrow>
             if tap = ''Create Wallet'' then
               (case createWallet ext (emit (RegistryCall (OpCreateWallet ETHEREUM)) w2)
                       ETHEREUM of
                  (Inl e, w3) \<Rightarrow>
                    emit (AlertShown ''Error'' ''Failed to create wallet'' [])
                      (emit (ConsoleError ''Failed to create wallet:'') w3)
                | (Inr a, w3) \<Rightarrow> handleSessionProposal ext client w3 proposal rest)
             else w2)
      else approveProposal ext client w1 proposal)"

declare handleSessionProposal.simps [simp del]

subsection \<open>Session requests\<close>

text \<open>
  \<open>CHAIN_NETWORKS[ChainType.ETHEREUM][0].network\<close>, the network every transaction of
  the bridge is sent on.
\<close>

definition firstEthereumNetwork :: "Network option" where
  "firstEthereumNetwork =
     (case CHAIN_NETWORKS ETHEREUM of
        Some ((name, network) # _) \<Rightarrow> Some network
      | _ \<Rightarrow> None)"

definition transactionPrompt :: "JsArg \<Rightarrow> JsArg \<Rightarrow> string" where
  "transactionPrompt to amount =
     ''Do you want to send this transaction?'' @ [CHR 0x0A, CHR 0x0A] @
     ''To: '' @ jsToString to @ [CHR 0x0A] @
     ''Value: '' @ jsToString amount"

definition rejectSession :: "bool \<Rightarrow> nat \<Rightarrow> string \<Rightarrow> World \<Rightarrow> World" where
  "rejectSession client i message w =
     (if client then emit (RejectSession i 4001 message) w else w)"

definition transactionFailed :: "bool \<Rightarrow> SessionRequest \<Rightarrow> World \<Rightarrow> World" where
  "transactionFailed client req w =
     rejectSession client (req_id req) ''Transaction failed''
       (emit (ConsoleError ''Transaction failed:'') w)"

definition signingFailed :: "bool \<Rightarrow> SessionRequest \<Rightarrow> World \<Rightarrow> World" where
  "signingFailed client req w =
     rejectSession client (req_id req) ''Signing failed''
       (emit (ConsoleError ''Signing failed:'') w)"

text \<open>
  \<open>respondSessionRequest\<close> is awaited inside the \<open>try\<close> of the button: when it fails,
  the \<open>catch\<close> of the button runs.
\<close>

definition respondSessionRequest ::
  "Ext \<Rightarrow> bool \<Rightarrow> SessionRequest \<Rightarrow> string \<Rightarrow> (World \<Rightarrow> World) \<Rightarrow> World \<Rightarrow> World" where
  "respondSessionRequest ext client req result onError w =
     (if client then
        (let w1 = emit (RespondSessionRequest (req_topic req) (req_id req) result) w in
         case wc_respondSessionRequest_error ext (req_topic req) (req_id req) result of
           Some e \<Rightarrow> onError w1
         | None \<Rightarrow> w1)
      else w)"

text \<open>
  The \<open>onPress\<close> of \<open>Approve\<close>: one call of \<open>walletService.sendTransaction\<close> with the
  two properties as they are; its result is relayed, its failure caught.
\<close>

definition approveTransaction ::
  "Ext \<Rightarrow> bool \<Rightarrow> World \<Rightarrow> SessionRequest \<Rightarrow> JsArg \<Rightarrow> JsArg \<Rightarrow> World" where
  "approveTransaction ext client w req to amount =
     (case firstEthereumNetwork of
        None \<Rightarrow> transactionFailed client req w
      | Some network \<Rightarrow>
          (case sendTransaction ext
                  (emit (RegistryCall (OpSendTransaction ETHEREUM network to amount)) w)
                  ETHEREUM network to amount of
             (Inl e, w2) \<Rightarrow> transactionFailed client req w2
           | (Inr tx, w2) \<Rightarrow>
               respondSessionRequest ext client req (tx_hash tx)
                 (transactionFailed client req) w2))"

text \<open>
  The \<open>onPress\<close> of \<open>Sign\<close>: \<open>methodParams[0]\<close> is the message (\<open>undefined\<close> when the list
  is empty; reading it throws, inside the \<open>try\<close>, when there is no list), and
  \<open>walletService.signMessage\<close> is called with it.
\<close>

definition approveSigning :: "Ext \<Rightarrow> bool \<Rightarrow> World \<Rightarrow> SessionRequest \<Rightarrow> World" where
  "approveSigning ext client w req =
     (case req_params req of
        None \<Rightarrow> signingFailed client req w
      | Some ps \<Rightarrow>
          (let message = (case ps of [] \<Rightarrow> JsUndefined | p # _ \<Rightarrow> paramArg p) in
           case signMessage ext (emit (RegistryCall (OpSignMessage ETHEREUM message)) w)
                  ETHEREUM message of
             (Inl e, w2) \<Rightarrow> signingFailed client req w2
           | (Inr signature, w2) \<Rightarrow>
               respondSessionRequest ext client req signature (signingFailed client req) w2))"

text \<open>
  \<open>handleSessionRequest\<close>: the \<open>switch\<close> on the method. Building the transaction dialog
  reads \<open>methodParams[0].to\<close>, which throws when there is no list, when the list is empty
  and when its first element is \<open>null\<close>; the outer \<open>catch\<close> only logs.
\<close>

definition handleSessionRequest ::
  "Ext \<Rightarrow> bool \<Rightarrow> World \<Rightarrow> SessionRequest \<Rightarrow> string list \<Rightarrow> World" where
  "handleSessionRequest ext client w req user =
     (if req_method req = ''eth_sendTransaction'' then
        (case (case req_params req of
                 None \<Rightarrow> None
               | Some [] \<Rightarrow> None
               | Some (p # _) \<Rightarrow> paramProps p) of
           None \<Rightarrow> emit (ConsoleError ''Failed to handle session request:'') w
         | Some (to, amount) \<Rightarrow>
             (let w1 = emit (AlertShown ''Transaction Request'' (transactionPrompt to amount)
                               [''Reject'', ''Approve'']) w in
              case user of
                [] \<Rightarrow> w1
              | tap # _ \<Rightarrow>
                  if tap = ''Reject''
                  then rejectSession client (req_id req) ''User rejected'' w1
                  else if tap = ''Approve''
                  then approveTransaction ext client w1 req to amount
                  else w1))
      else if req_method req = ''eth_sign'' \<or> req_method req = ''personal_sign'' then
        (let w1 = emit (AlertShown ''Signature Request'' ''Do you want to sign this message?''
                          [''Reject'', ''Sign'']) w in
         case user of
           [] \<Rightarrow> w1
         | tap # _ \<Rightarrow>
             if tap = ''Reject'' then rejectSession client (req_id req) ''User rejected'' w1
             else if tap = ''Sign'' then approveSigning ext client w1 req
             else w1)
      else rejectSession client (req_id req) ''Method not supported'' w)"

subsection \<open>Requests of the embedded page\<close>

definition sendResponse :: "nat \<Rightarrow> RpcPayload \<Rightarrow> World \<Rightarrow> World" where
  "sendResponse i payload w = (if webViewRef w then emit (InjectResponse i payload) w else w)"

definition walletRequiredForPage :: Event where
  "walletRequiredForPage =
     AlertShown ''Wallet Required''
       ''You need to create or import a wallet before connecting.''
       [''Cancel'', ''Create Wallet'']"

definition handleEthereumRequest ::
  "Ext \<Rightarrow> World \<Rightarrow> PageRequest \<Rightarrow> string list \<Rightarrow> World" where
  "handleEthereumRequest ext w data user =
     (if data_method data = ''eth_requestAccounts'' then
        (let w1 = emit (RegistryCall (OpHasWallet ETHEREUM)) w in
         if \<not> hasWallet w1 ETHEREUM then
           (let w2 = emit walletRequiredForPage w1 in
            case user of
              [] \<Rightarrow> w2
            | tap # _ \<Rightarrow>
                if tap = ''Create Wallet'' then
                  (case createWallet ext (emit (RegistryCall (OpCreateWallet ETHEREUM)) w2)
                          ETHEREUM of
                     (Inl e, w3) \<Rightarrow>
                       emit (AlertShown ''Error'' ''Failed to create wallet'' [])
                         (emit (ConsoleError ''Failed to create wallet:'') w3)
                   | (Inr addr, w3) \<Rightarrow> sendResponse (data_id data) (RpcResult [addr]) w3)
                else w2)
         else
           (let w2 = emit (RegistryCall (OpGetWalletAddress ETHEREUM)) w1 in
            case getWalletAddress w2 ETHEREUM of
              None \<Rightarrow> w2
            | Some addr \<Rightarrow> sendResponse (data_id data) (RpcResult [addr]) w2))
      else sendResponse (data_id data) (RpcError 4200 ''Method not supported'') w)"

subsection \<open>The mount effect and the listeners it registers\<close>

text \<open>
  The effect of the screen has no dependencies: it runs once, after the first render. It
  initialises the wallet service and the pairing client, stores the client in the state
  cell (\<open>setWalletClient\<close>) and registers \<open>handleSessionProposal\<close> and
  \<open>handleSessionRequest\<close> as listeners; a failure on the way is caught, logged and shown,
  and then nothing is registered.
\<close>

definition mountEffect :: "Ext \<Rightarrow> World \<Rightarrow> World" where
  "mountEffect ext w =
     (let w1 = initialize ext w in
      case wc_init_error ext of
        Some e \<Rightarrow>
          emit (AlertShown ''Initialization Error'' ''Failed to initialize wallet services.'' [])
            (emit (ConsoleError ''Failed to initialize:'') w1)
      | None \<Rightarrow> w1\<lparr>walletClient := True\<rparr>)"

text \<open>
  The two handlers the effect names are those of the render it belongs to, the first
  one, and the \<open>walletClient\<close> of that render is the initial value of the state cell.
  \<open>setWalletClient\<close> makes later renders build handlers that hold the client, but the
  effect does not run again, so these are never registered.
\<close>

definition firstRenderClient :: bool where
  "firstRenderClient = walletClient (initialWorld Map.empty)"

definition sessionProposalListener :: "Ext \<Rightarrow> World \<Rightarrow> Proposal \<Rightarrow> string list \<Rightarrow> World" where
  "sessionProposalListener ext w proposal user =
     handleSessionProposal ext firstRenderClient w proposal user"

definition sessionRequestListener ::
  "Ext \<Rightarrow> World \<Rightarrow> SessionRequest \<Rightarrow> string list \<Rightarrow> World" where
  "sessionRequestListener ext w req user =
     handleSessionRequest ext firstRenderClient w req user"

section \<open>Reading the trace\<close>

text \<open>
  The calls of the screen into the registry, and among them the calls of
  \<open>sendTransaction\<close> with their arguments.
\<close>

fun registryCall :: "Event \<Rightarrow> RegistryOp list" where
  "registryCall (RegistryCall op) = [op]"
| "registryCall _ = []"

definition registryCalls :: "Event list \<Rightarrow> RegistryOp list" where
  "registryCalls es = concat (map registryCall es)"

fun sendTransactionCall :: "Event \<Rightarrow> (ChainType \<times> Network \<times> JsArg \<times> JsArg) list" where
  "sendTransactionCall (RegistryCall (OpSendTransaction c n t v)) = [(c, n, t, v)]"
| "sendTransactionCall _ = []"

definition sendTransactionCalls ::
  "Event list \<Rightarrow> (ChainType \<times> Network \<times> JsArg \<times> JsArg) list" where
  "sendTransactionCalls es = concat (map sendTransactionCall es)"

text \<open>The transactions handed to a provider: provider, sender, destination, amount.\<close>

fun submission :: "Event \<Rightarrow> (Provider \<times> string \<times> JsArg \<times> int) list" where
  "submission (SignerSendTransaction p a t v) = [(p, a, t, v)]"
| "submission _ = []"

definition submissions :: "Event list \<Rightarrow> (Provider \<times> string \<times> JsArg \<times> int) list" where
  "submissions es = concat (map submission es)"

text \<open>
  The events that disclose an account or a signature or change state: a key written to
  the store, a transaction submitted, a message signed, a wallet created, a session
  approved, a result relayed to the peer or handed to the page, and the calls of the
  screen that start them.
\<close>

fun disclosesOrChanges :: "Event \<Rightarrow> bool" where
  "disclosesOrChanges (StorageSetItem k v) = True"
| "disclosesOrChanges (SignerSendTransaction p a t v) = True"
| "disclosesOrChanges (WalletSignMessage a m) = True"
| "disclosesOrChanges (RegistryCall (OpCreateWallet c)) = True"
| "disclosesOrChanges (RegistryCall (OpSendTransaction c n t v)) = True"
| "disclosesOrChanges (RegistryCall (OpSignMessage c m)) = True"
| "disclosesOrChanges (ApproveSession i nss) = True"
| "disclosesOrChanges (RespondSessionRequest t i r) = True"
| "disclosesOrChanges (InjectResponse i (RpcResult r)) = True"
| "disclosesOrChanges _ = False"

definition sensitive :: "Event list \<Rightarrow> Event list" where
  "sensitive es = filter disclosesOrChanges es"

text \<open>What reaches the remote peer: an approval, a rejection, a response.\<close>

fun isReply :: "Event \<Rightarrow> bool" where
  "isReply (ApproveSession i nss) = True"
| "isReply (RejectSession i c m) = True"
| "isReply (RespondSessionRequest t i r) = True"
| "isReply _ = False"

definition replies :: "Event list \<Rightarrow> Event list" where
  "replies es = filter isReply es"

text \<open>The results relayed to the peer.\<close>

fun isResult :: "Event \<Rightarrow> bool" where
  "isResult (RespondSessionRequest t i r) = True"
| "isResult _ = False"

definition results :: "Event list \<Rightarrow> Event list" where
  "results es = filter isResult es"

text \<open>The dialogs that offer the user a choice: those with buttons.\<close>

fun asksUser :: "Event \<Rightarrow> bool" where
  "asksUser (AlertShown title message buttons) = (buttons \<noteq> [])"
| "asksUser _ = False"

definition prompts :: "Event list \<Rightarrow> Event list" where
  "prompts es = filter asksUser es"

text \<open>The approvals issued: the proposal answered and the namespaces granted.\<close>

fun approval :: "Event \<Rightarrow> (nat \<times> (string \<times> Namespace) list) list" where
  "approval (ApproveSession i nss) = [(i, nss)]"
| "approval _ = []"

definition approvals :: "Event list \<Rightarrow> (nat \<times> (string \<times> Namespace) list) list" where
  "approvals es = concat (map approval es)"

text \<open>Two states have the same client tables.\<close>

definition sameClients :: "World \<Rightarrow> World \<Rightarrow> bool" where
  "sameClients w w' =
     (providers w' = providers w \<and> alchemyInstances w' = alchemyInstances w)"

section \<open>Sample inputs\<close>

text \<open>
  A library environment in which every call succeeds (one private key and one mnemonic
  decode, everything else is refused; amounts parse when they are strings), one whose
  store refuses every write, and the states of a process that started on an empty
  store, once the mount effect has run and the web view is mounted, before and after a
  wallet was created.
\<close>

definition sampleWallet :: Wallet where
  "sampleWallet = \<lparr>privateKey = ''0x01'', address = ''0xABC''\<rparr>"

definition sampleExt :: Ext where
  "sampleExt =
     \<lparr>Wallet_createRandom = Inr sampleWallet,
      Wallet_new = (\<lambda>pk. if pk = ''0x01'' then Inr sampleWallet
                          else Inl (Error ''invalid private key'')),
      Wallet_fromMnemonic = (\<lambda>m. if m = ''test test'' then Inr sampleWallet
                                  else Inl (Error ''invalid mnemonic'')),
      Wallet_signMessage = (\<lambda>wallet message.
        case message of
          JsString m \<Rightarrow> Inr (''signed:'' @ m)
        | _ \<Rightarrow> Inl (Error ''invalid message'')),
      AsyncStorage_getItem_error = (\<lambda>_. None),
      AsyncStorage_setItem_error = (\<lambda>_ _. None),
      provider_getBalance = (\<lambda>_ _. Inr 0),
      signer_sendTransaction = (\<lambda>_ _ _ _. Inr ''0xHASH''),
      parseEther = (\<lambda>amount.
        case amount of
          JsString a \<Rightarrow> Inr 1
        | _ \<Rightarrow> Inl (Error ''value must be a string'')),
      formatEther = (\<lambda>_. ''0.0''),
      formatEtherStr = (\<lambda>_. Inr ''0.0''),
      alchemy_getTokenBalances = (\<lambda>_ _. Inr []),
      alchemy_getTokenMetadata = (\<lambda>_ _. Inl (Error ''no metadata'')),
      alchemy_getAssetTransfers = (\<lambda>_ _. Inr []),
      Date_now = 0,
      Date_getTime = (\<lambda>_. 0),
      wc_init_error = None,
      wc_approveSession_error = (\<lambda>_. None),
      wc_respondSessionRequest_error = (\<lambda>_ _ _. None)\<rparr>"

definition failingStorageExt :: Ext where
  "failingStorageExt =
     sampleExt\<lparr>AsyncStorage_setItem_error := (\<lambda>_ _. Some (Error ''storage full''))\<rparr>"

definition readyWorld :: World where
  "readyWorld = (mountEffect sampleExt (initialWorld Map.empty))\<lparr>webViewRef := True\<rparr>"

definition walletWorld :: World where
  "walletWorld = snd (createWallet sampleExt readyWorld ETHEREUM)"

definition solanaWorld :: World where
  "solanaWorld = snd (createWallet sampleExt readyWorld SOLANA)"

definition sampleProposal :: Proposal where
  "sampleProposal =
     \<lparr>prop_id = 1, proposerName = ''Uniswap'',
      requiredNamespaces =
        [(''eip155:1'',
          \<lparr>rn_chains = [''eip155:1''],
           rn_methods = [''eth_sendTransaction'', ''personal_sign''],
           rn_events = [''accountsChanged'']\<rparr>)]\<rparr>"

definition polygonProposal :: Proposal where
  "polygonProposal =
     \<lparr>prop_id = 2, proposerName = ''QuickSwap'',
      requiredNamespaces =
        [(''eip155:137'',
          \<lparr>rn_chains = [''eip155:137''],
           rn_methods = [''eth_sendTransaction''],
           rn_events = [''chainChanged'']\<rparr>)]\<rparr>"

definition sampleTxRequest :: SessionRequest where
  "sampleTxRequest =
     \<lparr>req_id = 7, req_topic = ''topic-1'', req_method = ''eth_sendTransaction'',
      req_params =
        Some [ParamValue ''[object Object]'' (JsString ''0xDEF'') (JsString ''1.5'')]\<rparr>"

definition sampleSignRequest :: SessionRequest where
  "sampleSignRequest =
     \<lparr>req_id = 8, req_topic = ''topic-1'', req_method = ''personal_sign'',
      req_params = Some [ParamString ''hello'', ParamString ''0xABC'']\<rparr>"

definition sampleOtherRequest :: SessionRequest where
  "sampleOtherRequest =
     \<lparr>req_id = 9, req_topic = ''topic-1'', req_method = ''eth_signTypedData'',
      req_params = Some [ParamString ''0xABC'']\<rparr>"

definition accountsPageRequest :: PageRequest where
  "accountsPageRequest = \<lparr>data_id = 3, data_method = ''eth_requestAccounts''\<rparr>"

definition chainIdPageRequest :: PageRequest where
  "chainIdPageRequest = \<lparr>data_id = 4, data_method = ''eth_chainId''\<rparr>"

section \<open>Properties of the wallet service\<close>

lemma emit_fields [simp]:
  "wallets (emit e w) = wallets w"
  "providers (emit e w) = providers w"
  "alchemyInstances (emit e w) = alchemyInstances w"
  "storage (emit e w) = storage w"
  "trace (emit e w) = trace w @ [e]"
  "isConnecting (emit e w) = isConnecting w"
  "connectedDapp (emit e w) = connectedDapp w"
  "walletClient (emit e w) = walletClient w"
  "webViewRef (emit e w) = webViewRef w"
  by (simp_all add: emit_def)

lemma wallets_initialWorld: "wallets (initialWorld st) = (\<lambda>_. None)"
  by (simp add: initialWorld_def)

lemma walletWorld_wallets: "wallets walletWorld = (\<lambda>_. None)(ETHEREUM := Some sampleWallet)"
  by (simp add: walletWorld_def createWallet_def sampleExt_def saveWallet_def
      readyWorld_def mountEffect_def initialize_def setupProviders_def loadWallets_def initialWorld_def
      storageKey_def)

lemma walletWorld_storage: "storage walletWorld = [''wallet_ethereum'' \<mapsto> ''0x01'']"
  by (simp add: walletWorld_def createWallet_def sampleExt_def saveWallet_def
      readyWorld_def mountEffect_def initialize_def setupProviders_def loadWallets_def initialWorld_def
      storageKey_def sampleWallet_def)

lemma solanaWorld_wallets: "wallets solanaWorld = (\<lambda>_. None)(SOLANA := Some sampleWallet)"
  by (simp add: solanaWorld_def createWallet_def sampleExt_def saveWallet_def
      readyWorld_def mountEffect_def initialize_def setupProviders_def loadWallets_def initialWorld_def
      storageKey_def)

lemma readyWorld_storage: "storage readyWorld = Map.empty"
  by (simp add: readyWorld_def mountEffect_def initialize_def setupProviders_def loadWallets_def
      initialWorld_def sampleExt_def storageKey_def)

lemma saveWallet_failing:
  "AsyncStorage_setItem_error ext (storageKey chainType) pk = Some e \<Longrightarrow>
     saveWallet ext w chainType pk =
       emit (ConsoleError ''Failed to save wallet:'')
         (emit (StorageSetItem (storageKey chainType) pk) w)"
  by (simp add: saveWallet_def)

text \<open>
  Claim C4. On a chain without a wallet, \<open>getBalance\<close>, \<open>sendTransaction\<close> and
  \<open>signMessage\<close> fail with the error \<open>Wallet not found\<close> on every network, and the state
  they return is the state they were given: the trace has no new entry, so no provider,
  indexer or signer was called.
\<close>

theorem no_wallet_fails_before_any_call:
  "\<not> hasWallet w chainType \<Longrightarrow>
     getBalance ext w chainType network = (Inl WalletNotFoundError, w) \<and>
     sendTransaction ext w chainType network to amount = (Inl WalletNotFoundError, w) \<and>
     signMessage ext w chainType message = (Inl WalletNotFoundError, w)"
  by (simp add: hasWallet_def getBalance_def sendTransaction_def signMessage_def)

theorem no_wallet_fails_before_any_call_witness:
  "\<not> hasWallet (initialWorld Map.empty) SOLANA \<and>
   getBalance sampleExt (initialWorld Map.empty) SOLANA ETH_MAINNET =
     (Inl (Error ''Wallet not found''), initialWorld Map.empty) \<and>
   sendTransaction sampleExt (initialWorld Map.empty) SOLANA ETH_MAINNET (JsString ''0xDEF'')
     (JsString ''1.5'') =
     (Inl (Error ''Wallet not found''), initialWorld Map.empty) \<and>
   signMessage sampleExt (initialWorld Map.empty) SOLANA (JsString ''hello'') =
     (Inl (Error ''Wallet not found''), initialWorld Map.empty)"
proof -
  have h: "\<not> hasWallet (initialWorld Map.empty) SOLANA"
    by (simp add: hasWallet_def wallets_initialWorld)
  show ?thesis
    using h no_wallet_fails_before_any_call
      [OF h, of sampleExt ETH_MAINNET "JsString ''0xDEF''" "JsString ''1.5''"
         "JsString ''hello''"]
    by (simp add: WalletNotFoundError_def)
qed

text \<open>
  Claim C5. When the key string does not decode (the constructor of the signing library
  throws), \<open>importWallet\<close> fails with the error \<open>Invalid private key\<close>; it only logs,
  and both the registry and the persisted store are what they were.
\<close>

theorem importWallet_malformed_key:
  "Wallet_new ext pk = Inl e \<Longrightarrow>
     importWallet ext w chainType pk =
       (Inl InvalidPrivateKeyError, emit (ConsoleError ''Failed to import wallet:'') w) \<and>
     wallets (snd (importWallet ext w chainType pk)) = wallets w \<and>
     storage (snd (importWallet ext w chainType pk)) = storage w"
  by (simp add: importWallet_def)

theorem importWallet_malformed_key_witness:
  "Wallet_new sampleExt ''not a key'' = Inl (Error ''invalid private key'') \<and>
   fst (importWallet sampleExt walletWorld ETHEREUM ''not a key'') =
     Inl (Error ''Invalid private key'') \<and>
   wallets (snd (importWallet sampleExt walletWorld ETHEREUM ''not a key'')) ETHEREUM =
     Some sampleWallet \<and>
   storage (snd (importWallet sampleExt walletWorld ETHEREUM ''not a key''))
     ''wallet_ethereum'' = Some ''0x01''"
proof -
  have h: "Wallet_new sampleExt ''not a key'' = Inl (Error ''invalid private key'')"
    by (simp add: sampleExt_def)
  show ?thesis
    using h importWallet_malformed_key [OF h, of walletWorld ETHEREUM]
    by (simp add: InvalidPrivateKeyError_def walletWorld_wallets walletWorld_storage)
qed

text \<open>
  Claim C8, as the code has it. For solana and binance and every network,
  \<open>getTokenBalances\<close> and \<open>getTransactionHistory\<close> return the empty list, without any
  call, when the registry holds a wallet for the chain; when it holds none they fail
  with \<open>Wallet not found\<close>, as on every other chain.
\<close>

theorem unsupported_chain_empty_list:
  "chainType = SOLANA \<or> chainType = BINANCE \<Longrightarrow>
     getTokenBalances ext w chainType network =
       (if hasWallet w chainType then Inr [] else Inl WalletNotFoundError, w) \<and>
     getTransactionHistory ext w chainType network =
       (if hasWallet w chainType then Inr [] else Inl WalletNotFoundError, w)"
  by (auto simp add: getTokenBalances_def getTransactionHistory_def hasWallet_def
      split: option.splits)

theorem unsupported_chain_empty_list_witness:
  "hasWallet solanaWorld SOLANA \<and>
   getTokenBalances sampleExt solanaWorld SOLANA MATIC_MUMBAI = (Inr [], solanaWorld) \<and>
   getTransactionHistory sampleExt solanaWorld SOLANA MATIC_MUMBAI = (Inr [], solanaWorld) \<and>
   \<not> hasWallet solanaWorld BINANCE \<and>
   getTokenBalances sampleExt solanaWorld BINANCE MATIC_MUMBAI =
     (Inl WalletNotFoundError, solanaWorld)"
proof -
  have h: "hasWallet solanaWorld SOLANA" "\<not> hasWallet solanaWorld BINANCE"
    by (simp_all add: hasWallet_def solanaWorld_wallets)
  show ?thesis
    using h unsupported_chain_empty_list [of SOLANA sampleExt solanaWorld MATIC_MUMBAI]
      unsupported_chain_empty_list [of BINANCE sampleExt solanaWorld MATIC_MUMBAI]
    by simp
qed

text \<open>
  Claim C8 as it is stated, on a fresh process: no wallet is registered for solana, and
  both operations answer with an error, not with the empty list.
\<close>

theorem unsupported_chain_without_wallet_counterexample:
  "fst (getTokenBalances sampleExt (initialWorld Map.empty) SOLANA ETH_MAINNET) =
     Inl (Error ''Wallet not found'') \<and>
   fst (getTransactionHistory sampleExt (initialWorld Map.empty) SOLANA ETH_MAINNET) =
     Inl (Error ''Wallet not found'')"
  by (simp add: getTokenBalances_def getTransactionHistory_def wallets_initialWorld
      WalletNotFoundError_def)

text \<open>
  Claim C10. When the store refuses the write, \<open>createWallet\<close>, \<open>importWallet\<close> and
  \<open>importWalletFromMnemonic\<close> still return the address and register the wallet; the
  store is what it was, and the only trace of the failure is one line on the console.
\<close>

theorem persist_failure_is_swallowed:
  "(Wallet_createRandom ext = Inr wallet \<and>
    AsyncStorage_setItem_error ext (storageKey chainType) (privateKey wallet) = Some e \<longrightarrow>
      fst (createWallet ext w chainType) = Inr (address wallet) \<and>
      wallets (snd (createWallet ext w chainType)) chainType = Some wallet \<and>
      storage (snd (createWallet ext w chainType)) = storage w \<and>
      trace (snd (createWallet ext w chainType)) =
        trace w @ [StorageSetItem (storageKey chainType) (privateKey wallet),
                   ConsoleError ''Failed to save wallet:'']) \<and>
   (Wallet_new ext pk = Inr wallet \<and>
    AsyncStorage_setItem_error ext (storageKey chainType) pk = Some e \<longrightarrow>
      fst (importWallet ext w chainType pk) = Inr (address wallet) \<and>
      wallets (snd (importWallet ext w chainType pk)) chainType = Some wallet \<and>
      storage (snd (importWallet ext w chainType pk)) = storage w \<and>
      trace (snd (importWallet ext w chainType pk)) =
        trace w @ [StorageSetItem (storageKey chainType) pk,
                   ConsoleError ''Failed to save wallet:'']) \<and>
   (Wallet_fromMnemonic ext mnemonic = Inr wallet \<and>
    AsyncStorage_setItem_error ext (storageKey chainType) (privateKey wallet) = Some e \<longrightarrow>
      fst (importWalletFromMnemonic ext w chainType mnemonic) = Inr (address wallet) \<and>
      wallets (snd (importWalletFromMnemonic ext w chainType mnemonic)) chainType =
        Some wallet \<and>
      storage (snd (importWalletFromMnemonic ext w chainType mnemonic)) = storage w \<and>
      trace (snd (importWalletFromMnemonic ext w chainType mnemonic)) =
        trace w @ [StorageSetItem (storageKey chainType) (privateKey wallet),
                   ConsoleError ''Failed to save wallet:''])"
  by (simp add: createWallet_def importWallet_def importWalletFromMnemonic_def
      saveWallet_failing)

theorem persist_failure_is_swallowed_witness:
  "Wallet_createRandom failingStorageExt = Inr sampleWallet \<and>
   Wallet_new failingStorageExt ''0x01'' = Inr sampleWallet \<and>
   Wallet_fromMnemonic failingStorageExt ''test test'' = Inr sampleWallet \<and>
   AsyncStorage_setItem_error failingStorageExt (storageKey POLYGON) ''0x01'' =
     Some (Error ''storage full'') \<and>
   fst (createWallet failingStorageExt readyWorld POLYGON) = Inr ''0xABC'' \<and>
   fst (importWallet failingStorageExt readyWorld POLYGON ''0x01'') = Inr ''0xABC'' \<and>
   fst (importWalletFromMnemonic failingStorageExt readyWorld POLYGON ''test test'') =
     Inr ''0xABC'' \<and>
   hasWallet (snd (createWallet failingStorageExt readyWorld POLYGON)) POLYGON \<and>
   hasWallet (snd (importWallet failingStorageExt readyWorld POLYGON ''0x01'')) POLYGON \<and>
   hasWallet (snd (importWalletFromMnemonic failingStorageExt readyWorld POLYGON
     ''test test'')) POLYGON \<and>
   storage (snd (createWallet failingStorageExt readyWorld POLYGON)) (storageKey POLYGON) =
     None \<and>
   storage (snd (importWallet failingStorageExt readyWorld POLYGON ''0x01''))
     (storageKey POLYGON) = None \<and>
   storage (snd (importWalletFromMnemonic failingStorageExt readyWorld POLYGON ''test test''))
     (storageKey POLYGON) = None"
proof -
  have h: "Wallet_createRandom failingStorageExt = Inr sampleWallet"
    "Wallet_new failingStorageExt ''0x01'' = Inr sampleWallet"
    "Wallet_fromMnemonic failingStorageExt ''test test'' = Inr sampleWallet"
    "AsyncStorage_setItem_error failingStorageExt (storageKey POLYGON) ''0x01'' =
       Some (Error ''storage full'')"
    "privateKey sampleWallet = ''0x01''" "address sampleWallet = ''0xABC''"
    by (simp_all add: failingStorageExt_def sampleExt_def sampleWallet_def)
  show ?thesis
    using h persist_failure_is_swallowed [of failingStorageExt sampleWallet POLYGON
        "Error ''storage full''" readyWorld "''0x01''" "''test test''"]
    by (simp add: hasWallet_def readyWorld_storage)
qed

section \<open>The client tables\<close>

lemma sameClients_refl [simp]: "sameClients w w"
  by (simp add: sameClients_def)

lemma sameClients_emit [simp]: "sameClients w (emit e w') = sameClients w w'"
  by (simp add: sameClients_def)

lemma sameClients_saveWallet [simp]:
  "sameClients w (saveWallet ext w' chainType pk) = sameClients w w'"
  by (simp add: saveWallet_def sameClients_def Let_def split: option.splits)

lemma sameClients_wallets_update [simp]:
  "sameClients w (w'\<lparr>wallets := ws\<rparr>) = sameClients w w'"
  by (simp add: sameClients_def)

lemma sameClients_createWallet: "sameClients w (snd (createWallet ext w chainType))"
  by (simp add: createWallet_def split: sum.splits)

lemma sameClients_importWallet: "sameClients w (snd (importWallet ext w chainType pk))"
  by (simp add: importWallet_def split: sum.splits)

lemma sameClients_importWalletFromMnemonic:
  "sameClients w (snd (importWalletFromMnemonic ext w chainType mnemonic))"
  by (simp add: importWalletFromMnemonic_def split: sum.splits)

lemma sameClients_getBalance: "sameClients w (snd (getBalance ext w chainType network))"
  by (simp add: getBalance_def Let_def split: sum.splits option.splits)

lemma sameClients_sendTransaction:
  "sameClients w (snd (sendTransaction ext w chainType network to amount))"
  by (simp add: sendTransaction_def Let_def split: sum.splits option.splits)

lemma sameClients_signMessage: "sameClients w (snd (signMessage ext w chainType message))"
  by (simp add: signMessage_def split: option.splits)

lemma sameClients_tokenBalancesLoop:
  "sameClients w0 (snd (tokenBalancesLoop ext alchemy chainType w tbs balances)) =
     sameClients w0 w"
  by (induction ext alchemy chainType w tbs balances rule: tokenBalancesLoop.induct)
     (simp_all add: Let_def split: sum.splits option.splits)

lemma sameClients_getTokenBalances:
  "sameClients w (snd (getTokenBalances ext w chainType network))"
  by (simp add: getTokenBalances_def Let_def sameClients_tokenBalancesLoop
      split: sum.splits option.splits)

lemma sameClients_getTransactionHistory:
  "sameClients w (snd (getTransactionHistory ext w chainType network))"
  by (simp add: getTransactionHistory_def Let_def split: sum.splits option.splits)

lemma sameClients_loadWalletsLoop:
  "sameClients w0 (loadWalletsLoop ext w cs) = sameClients w0 w"
  by (induction ext w cs rule: loadWalletsLoop.induct)
     (simp_all add: Let_def split: sum.splits option.splits)

lemma sameClients_loadWallets: "sameClients w (loadWallets ext w)"
  by (simp only: loadWallets_def sameClients_loadWalletsLoop sameClients_refl)

lemma fail_fast_provider:
  "providers w (clientKey chainType network) = None \<Longrightarrow>
     getProvider w chainType network = Inl (ProviderNotFoundError chainType network) \<and>
     (hasWallet w chainType \<longrightarrow>
        getBalance ext w chainType network =
          (Inl (ProviderNotFoundError chainType network), w) \<and>
        sendTransaction ext w chainType network to amount =
          (Inl (ProviderNotFoundError chainType network), w))"
  by (auto simp add: getProvider_def getBalance_def sendTransaction_def hasWallet_def)

lemma fail_fast_alchemy:
  "alchemyInstances w (clientKey chainType network) = None \<Longrightarrow>
     getAlchemyInstance w chainType network = Inl (AlchemyNotFoundError chainType network) \<and>
     (hasWallet w chainType \<and> (chainType = ETHEREUM \<or> chainType = POLYGON) \<longrightarrow>
        getTokenBalances ext w chainType network =
          (Inl (AlchemyNotFoundError chainType network), w) \<and>
        getTransactionHistory ext w chainType network =
          (Inl (AlchemyNotFoundError chainType network), w))"
  by (auto simp add: getAlchemyInstance_def getTokenBalances_def getTransactionHistory_def
      hasWallet_def)

lemma sameClients_isConnecting [simp]:
  "sameClients w (w'\<lparr>isConnecting := b\<rparr>) = sameClients w w'"
  "sameClients w (w'\<lparr>connectedDapp := d\<rparr>) = sameClients w w'"
  by (simp_all add: sameClients_def)

lemma sameClients_approveProposal [simp]:
  "sameClients w0 (approveProposal ext client w proposal) = sameClients w0 w"
  by (simp add: approveProposal_def Let_def split: option.splits)

lemma sameClients_createWallet_gen:
  "sameClients w0 (snd (createWallet ext w chainType)) = sameClients w0 w"
  by (simp add: createWallet_def split: sum.splits)

lemma sameClients_handleSessionProposal_gen:
  "sameClients w0 (handleSessionProposal ext client w proposal user) = sameClients w0 w"
proof (induction user arbitrary: w)
  case Nil
  show ?case
    by (subst handleSessionProposal.simps)
       (simp add: Let_def walletRequiredForDapps_def)
next
  case (Cons tap rest)
  show ?case
    by (subst handleSessionProposal.simps)
       (simp add: Let_def walletRequiredForDapps_def case_prod_beta Cons.IH
          sameClients_createWallet_gen split: sum.splits)
qed

lemma sameClients_rejectSession [simp]:
  "sameClients w0 (rejectSession client i m w) = sameClients w0 w"
  by (simp add: rejectSession_def)

lemma sameClients_failed [simp]:
  "sameClients w0 (transactionFailed client req w) = sameClients w0 w"
  "sameClients w0 (signingFailed client req w) = sameClients w0 w"
  by (simp_all add: transactionFailed_def signingFailed_def)

lemma sameClients_respond [simp]:
  "sameClients w0
     (respondSessionRequest ext client req r (transactionFailed client req) w) =
   sameClients w0 w"
  "sameClients w0
     (respondSessionRequest ext client req r (signingFailed client req) w) =
   sameClients w0 w"
  by (simp_all add: respondSessionRequest_def Let_def split: option.splits)

lemma sameClients_sendTransaction_gen:
  "sameClients w0 (snd (sendTransaction ext w chainType network to amount)) = sameClients w0 w"
  by (simp add: sendTransaction_def Let_def split: sum.splits option.splits)

lemma sameClients_signMessage_gen:
  "sameClients w0 (snd (signMessage ext w chainType message)) = sameClients w0 w"
  by (simp add: signMessage_def split: option.splits)

lemma sameClients_approveTransaction [simp]:
  "sameClients w0 (approveTransaction ext client w req to amount) = sameClients w0 w"
  by (simp add: approveTransaction_def case_prod_beta sameClients_sendTransaction_gen
      split: option.splits sum.splits)

lemma sameClients_approveSigning [simp]:
  "sameClients w0 (approveSigning ext client w req) = sameClients w0 w"
  by (simp add: approveSigning_def Let_def case_prod_beta sameClients_signMessage_gen
      split: option.splits sum.splits)

lemma sameClients_handleSessionRequest:
  "sameClients w (handleSessionRequest ext client w req user)"
  by (simp add: handleSessionRequest_def Let_def split: list.splits option.splits)

lemma sameClients_handleEthereumRequest:
  "sameClients w (handleEthereumRequest ext w data user)"
  by (simp add: handleEthereumRequest_def Let_def sendResponse_def case_prod_beta
      sameClients_createWallet_gen split: list.splits sum.splits option.splits)

lemma readyWorld_clients:
  "providers readyWorld (clientKey ETHEREUM ETH_MAINNET) = Some (DefaultProvider ''mainnet'')"
  "providers readyWorld (clientKey ETHEREUM MATIC_MUMBAI) = None"
  "alchemyInstances readyWorld (clientKey ETHEREUM MATIC_MUMBAI) = None"
  "alchemyInstances readyWorld (clientKey POLYGON MATIC_MUMBAI) =
     Some (Alchemy ''YOUR_ALCHEMY_API_KEY'' MATIC_MUMBAI)"
  by (simp_all add: readyWorld_def mountEffect_def initialize_def setupProviders_def loadWallets_def
      initialWorld_def sampleExt_def storageKey_def clientKey_def ETH_MAINNET_def
      ETH_GOERLI_def MATIC_MAINNET_def MATIC_MUMBAI_def)

lemma walletWorld_clients:
  "providers walletWorld = providers readyWorld"
  "alchemyInstances walletWorld = alchemyInstances readyWorld"
  using sameClients_createWallet [of readyWorld sampleExt ETHEREUM]
  by (simp_all add: walletWorld_def sameClients_def)

text \<open>
  Claim C9. A pair of chain and network without an entry in the provider table makes
  \<open>getProvider\<close> throw, and \<open>getBalance\<close> and \<open>sendTransaction\<close>, once past the wallet
  check, fail with that error and leave the state as it was: no call went out. The same
  holds of the indexer table, \<open>getAlchemyInstance\<close>, \<open>getTokenBalances\<close> and
  \<open>getTransactionHistory\<close> on ethereum and polygon. No operation of the service and no
  handler of the screen changes either table; only \<open>setupProviders\<close>, which \<open>initialize\<close>
  runs, writes them.
\<close>

theorem client_tables_are_fixed_after_initialize:
  "(providers w (clientKey chainType network) = None \<longrightarrow>
      getProvider w chainType network = Inl (ProviderNotFoundError chainType network) \<and>
      (hasWallet w chainType \<longrightarrow>
         getBalance ext w chainType network =
           (Inl (ProviderNotFoundError chainType network), w) \<and>
         sendTransaction ext w chainType network to amount =
           (Inl (ProviderNotFoundError chainType network), w))) \<and>
   (alchemyInstances w (clientKey chainType network) = None \<longrightarrow>
      getAlchemyInstance w chainType network = Inl (AlchemyNotFoundError chainType network) \<and>
      (hasWallet w chainType \<and> (chainType = ETHEREUM \<or> chainType = POLYGON) \<longrightarrow>
         getTokenBalances ext w chainType network =
           (Inl (AlchemyNotFoundError chainType network), w) \<and>
         getTransactionHistory ext w chainType network =
           (Inl (AlchemyNotFoundError chainType network), w))) \<and>
   sameClients w (loadWallets ext w) \<and>
   sameClients w (snd (createWallet ext w chainType)) \<and>
   sameClients w (snd (importWallet ext w chainType pk)) \<and>
   sameClients w (snd (importWalletFromMnemonic ext w chainType mnemonic)) \<and>
   sameClients w (snd (getBalance ext w chainType network)) \<and>
   sameClients w (snd (getTokenBalances ext w chainType network)) \<and>
   sameClients w (snd (sendTransaction ext w chainType network to amount)) \<and>
   sameClients w (snd (signMessage ext w chainType message)) \<and>
   sameClients w (snd (getTransactionHistory ext w chainType network)) \<and>
   sameClients w (handleSessionProposal ext client w proposal user) \<and>
   sameClients w (handleSessionRequest ext client w req user) \<and>
   sameClients w (handleEthereumRequest ext w data user)"
  using fail_fast_provider [of w chainType network ext to amount]
    fail_fast_alchemy [of w chainType network ext]
  by (simp add: sameClients_loadWallets sameClients_createWallet sameClients_importWallet
      sameClients_importWalletFromMnemonic sameClients_getBalance sameClients_getTokenBalances
      sameClients_sendTransaction sameClients_signMessage sameClients_getTransactionHistory
      sameClients_handleSessionProposal_gen sameClients_handleSessionRequest
      sameClients_handleEthereumRequest)

theorem client_tables_are_fixed_after_initialize_witness:
  "providers walletWorld (clientKey ETHEREUM MATIC_MUMBAI) = None \<and>
   alchemyInstances walletWorld (clientKey ETHEREUM MATIC_MUMBAI) = None \<and>
   hasWallet walletWorld ETHEREUM \<and>
   getBalance sampleExt walletWorld ETHEREUM MATIC_MUMBAI =
     (Inl (Error ''Provider not found for ethereum polygon-mumbai''), walletWorld) \<and>
   sendTransaction sampleExt walletWorld ETHEREUM MATIC_MUMBAI (JsString ''0xDEF'')
       (JsString ''1.5'') =
     (Inl (Error ''Provider not found for ethereum polygon-mumbai''), walletWorld) \<and>
   getTokenBalances sampleExt walletWorld ETHEREUM MATIC_MUMBAI =
     (Inl (Error ''Alchemy instance not found for ethereum polygon-mumbai''), walletWorld) \<and>
   getTransactionHistory sampleExt walletWorld ETHEREUM MATIC_MUMBAI =
     (Inl (Error ''Alchemy instance not found for ethereum polygon-mumbai''), walletWorld) \<and>
   providers (snd (getBalance sampleExt walletWorld ETHEREUM MATIC_MUMBAI)) =
     providers walletWorld"
proof -
  have h: "providers walletWorld (clientKey ETHEREUM MATIC_MUMBAI) = None"
    "alchemyInstances walletWorld (clientKey ETHEREUM MATIC_MUMBAI) = None"
    "hasWallet walletWorld ETHEREUM"
    by (simp_all add: walletWorld_clients readyWorld_clients hasWallet_def
        walletWorld_wallets)
  show ?thesis
    using h client_tables_are_fixed_after_initialize
      [where w = walletWorld and chainType = ETHEREUM and network = MATIC_MUMBAI
         and ext = sampleExt and to = "JsString ''0xDEF''" and amount = "JsString ''1.5''"]
    by (simp add: ProviderNotFoundError_def AlchemyNotFoundError_def MATIC_MUMBAI_def)
qed

section \<open>Properties of the session bridge\<close>

subsection \<open>Reading a trace piece by piece\<close>

lemma registryCalls_simps [simp]:
  "registryCalls [] = []"
  "registryCalls (e # es) = registryCall e @ registryCalls es"
  "registryCalls (xs @ ys) = registryCalls xs @ registryCalls ys"
  by (simp_all add: registryCalls_def)

lemma sendTransactionCalls_simps [simp]:
  "sendTransactionCalls [] = []"
  "sendTransactionCalls (e # es) = sendTransactionCall e @ sendTransactionCalls es"
  "sendTransactionCalls (xs @ ys) = sendTransactionCalls xs @ sendTransactionCalls ys"
  by (simp_all add: sendTransactionCalls_def)

lemma submissions_simps [simp]:
  "submissions [] = []"
  "submissions (e # es) = submission e @ submissions es"
  "submissions (xs @ ys) = submissions xs @ submissions ys"
  by (simp_all add: submissions_def)

lemma approvals_simps [simp]:
  "approvals [] = []"
  "approvals (e # es) = approval e @ approvals es"
  "approvals (xs @ ys) = approvals xs @ approvals ys"
  by (simp_all add: approvals_def)

lemma sensitive_simps [simp]:
  "sensitive [] = []"
  "sensitive (e # es) = (if disclosesOrChanges e then e # sensitive es else sensitive es)"
  "sensitive (xs @ ys) = sensitive xs @ sensitive ys"
  by (simp_all add: sensitive_def)

lemma replies_simps [simp]:
  "replies [] = []"
  "replies (e # es) = (if isReply e then e # replies es else replies es)"
  "replies (xs @ ys) = replies xs @ replies ys"
  by (simp_all add: replies_def)

lemma results_simps [simp]:
  "results [] = []"
  "results (e # es) = (if isResult e then e # results es else results es)"
  "results (xs @ ys) = results xs @ results ys"
  by (simp_all add: results_def)

lemma prompts_simps [simp]:
  "prompts [] = []"
  "prompts (e # es) = (if asksUser e then e # prompts es else prompts es)"
  "prompts (xs @ ys) = prompts xs @ prompts ys"
  by (simp_all add: prompts_def)

subsection \<open>The sample states and the registered closures\<close>

lemma firstRenderClient_eq: "firstRenderClient = False"
  by (simp add: firstRenderClient_def initialWorld_def)

lemma readyWorld_fields:
  "wallets readyWorld = (\<lambda>_. None)" "walletClient readyWorld" "webViewRef readyWorld"
  "trace readyWorld = [StorageGetItem ''wallet_ethereum'', StorageGetItem ''wallet_polygon'',
     StorageGetItem ''wallet_solana'', StorageGetItem ''wallet_binance'']"
  by (simp_all add: readyWorld_def mountEffect_def initialize_def setupProviders_def
      loadWallets_def initialWorld_def sampleExt_def storageKey_def)

lemma saveWallet_fields [simp]:
  "wallets (saveWallet ext w c pk) = wallets w"
  "walletClient (saveWallet ext w c pk) = walletClient w"
  "webViewRef (saveWallet ext w c pk) = webViewRef w"
  by (simp_all add: saveWallet_def Let_def split: option.splits)

lemma saveWallet_trace:
  "trace (saveWallet ext w c pk) =
     trace w @ StorageSetItem (storageKey c) pk #
       (case AsyncStorage_setItem_error ext (storageKey c) pk of
          None \<Rightarrow> [] | Some e \<Rightarrow> [ConsoleError ''Failed to save wallet:''])"
  by (simp add: saveWallet_def Let_def split: option.splits)

lemma walletWorld_fields:
  "walletClient walletWorld" "webViewRef walletWorld"
  "trace walletWorld = [StorageGetItem ''wallet_ethereum'', StorageGetItem ''wallet_polygon'',
     StorageGetItem ''wallet_solana'', StorageGetItem ''wallet_binance'',
     StorageSetItem ''wallet_ethereum'' ''0x01'']"
  "getWalletAddress walletWorld ETHEREUM = Some ''0xABC''"
  "getWalletAddress walletWorld POLYGON = None"
  "hasWallet walletWorld ETHEREUM"
  by (simp_all add: walletWorld_def createWallet_def saveWallet_trace readyWorld_fields
      sampleExt_def sampleWallet_def storageKey_def getWalletAddress_def hasWallet_def)

lemma createWallet_readyWorld:
  "createWallet sampleExt readyWorld ETHEREUM = (Inr ''0xABC'', walletWorld)"
  by (simp add: walletWorld_def createWallet_def sampleExt_def sampleWallet_def)

subsection \<open>The steps of the handlers\<close>

lemma firstEthereumNetwork_eq: "firstEthereumNetwork = Some ETH_MAINNET"
  by (simp add: firstEthereumNetwork_def)

lemma createWallet_Inr:
  "createWallet ext w c = (Inr a, w') \<Longrightarrow>
     \<exists>wallet. Wallet_createRandom ext = Inr wallet \<and> a = address wallet \<and>
       wallets w' = (wallets w)(c := Some wallet) \<and>
       walletClient w' = walletClient w \<and> webViewRef w' = webViewRef w \<and>
       trace w' = trace w @ StorageSetItem (storageKey c) (privateKey wallet) #
         (case AsyncStorage_setItem_error ext (storageKey c) (privateKey wallet) of
            None \<Rightarrow> [] | Some e \<Rightarrow> [ConsoleError ''Failed to save wallet:''])"
  by (auto simp add: createWallet_def saveWallet_trace split: sum.splits)

lemma createWallet_Inl:
  "createWallet ext w c = (Inl e, w') \<Longrightarrow> w' = w"
  by (auto simp add: createWallet_def split: sum.splits)

lemma trace_rejectSession:
  "trace (rejectSession client i m w) =
     trace w @ (if client then [RejectSession i 4001 m] else [])"
  by (simp add: rejectSession_def)

lemma trace_transactionFailed:
  "trace (transactionFailed client req w) =
     trace w @ ConsoleError ''Transaction failed:'' #
       (if client then [RejectSession (req_id req) 4001 ''Transaction failed''] else [])"
  by (simp add: transactionFailed_def trace_rejectSession)

lemma trace_signingFailed:
  "trace (signingFailed client req w) =
     trace w @ ConsoleError ''Signing failed:'' #
       (if client then [RejectSession (req_id req) 4001 ''Signing failed''] else [])"
  by (simp add: signingFailed_def trace_rejectSession)

text \<open>
  What \<open>sendTransaction\<close> and \<open>signMessage\<close> add to the trace: the one call of the
  signer, when the call gets that far.
\<close>

lemma trace_sendTransaction:
  "trace (snd (sendTransaction ext w chainType network to amount)) =
     trace w @
       (case wallets w chainType of
          None \<Rightarrow> []
        | Some wallet \<Rightarrow>
            (case providers w (clientKey chainType network) of
               None \<Rightarrow> []
             | Some provider \<Rightarrow>
                 (case parseEther ext amount of
                    Inl e \<Rightarrow> []
                  | Inr wei \<Rightarrow> [SignerSendTransaction provider (address wallet) to wei])))"
  by (simp add: sendTransaction_def getProvider_def Let_def split: option.splits sum.splits)

lemma trace_signMessage:
  "trace (snd (signMessage ext w chainType message)) =
     trace w @
       (case wallets w chainType of
          None \<Rightarrow> []
        | Some wallet \<Rightarrow> [WalletSignMessage (address wallet) message])"
  by (simp add: signMessage_def split: option.splits)

lemma fst_sendTransaction_emit:
  "fst (sendTransaction ext (emit e w) chainType network to amount) =
     fst (sendTransaction ext w chainType network to amount)"
  by (simp add: sendTransaction_def getProvider_def Let_def split: option.splits sum.splits)

lemma fst_signMessage_emit:
  "fst (signMessage ext (emit e w) chainType message) =
     fst (signMessage ext w chainType message)"
  by (simp add: signMessage_def split: option.splits)

lemma handleSessionProposal_with_wallet:
  "hasWallet w ETHEREUM \<Longrightarrow>
     handleSessionProposal ext client w proposal user =
       approveProposal ext client
         (emit (RegistryCall (OpHasWallet ETHEREUM)) (w\<lparr>isConnecting := True\<rparr>)) proposal"
  by (subst handleSessionProposal.simps) (auto simp add: hasWallet_def Let_def)

lemma handleSessionProposal_no_wallet_not_tapped:
  "\<not> hasWallet w ETHEREUM \<Longrightarrow> user = [] \<or> hd user \<noteq> ''Create Wallet'' \<Longrightarrow>
     handleSessionProposal ext client w proposal user =
       (emit walletRequiredForDapps
          (emit (RegistryCall (OpHasWallet ETHEREUM)) (w\<lparr>isConnecting := True\<rparr>)))
         \<lparr>isConnecting := False\<rparr>"
  by (subst handleSessionProposal.simps)
     (auto simp add: hasWallet_def Let_def split: list.splits)

lemma handleEthereumRequest_no_wallet_not_tapped:
  "\<not> hasWallet w ETHEREUM \<Longrightarrow> user = [] \<or> hd user \<noteq> ''Create Wallet'' \<Longrightarrow>
     data_method data = ''eth_requestAccounts'' \<Longrightarrow>
     handleEthereumRequest ext w data user =
       emit walletRequiredForPage (emit (RegistryCall (OpHasWallet ETHEREUM)) w)"
  by (auto simp add: handleEthereumRequest_def hasWallet_def Let_def split: list.splits)

lemma handleEthereumRequest_wallet_trace:
  "getWalletAddress w ETHEREUM = Some a \<Longrightarrow> webViewRef w \<Longrightarrow>
   data_method data = ''eth_requestAccounts'' \<Longrightarrow>
     trace (handleEthereumRequest ext w data user) =
       trace w @ [RegistryCall (OpHasWallet ETHEREUM), RegistryCall (OpGetWalletAddress ETHEREUM),
                  InjectResponse (data_id data) (RpcResult [a])]"
  by (auto simp add: handleEthereumRequest_def getWalletAddress_def hasWallet_def Let_def
      sendResponse_def split: option.splits if_splits)

text \<open>The trace of the path past the wallet gate, for a closure with and without a client.\<close>

lemma approveProposal_trace:
  "getWalletAddress w ETHEREUM = Some a \<Longrightarrow>
     trace (approveProposal ext client w proposal) =
       trace w @ RegistryCall (OpGetWalletAddress ETHEREUM) #
       (if client then
          ApproveSession (prop_id proposal)
            (approvedNamespaces a (requiredNamespaces proposal)) #
          (case wc_approveSession_error ext (prop_id proposal) of
             None \<Rightarrow> [AlertShown ''Connected'' (''Connected to '' @ proposerName proposal) []]
           | Some e \<Rightarrow> [ConsoleError ''Failed to approve session:'',
                         AlertShown ''Connection Error'' ''Failed to connect to dApp'' []])
        else [AlertShown ''Connected'' (''Connected to '' @ proposerName proposal) []])"
  by (simp add: approveProposal_def getWalletAddress_def Let_def split: option.splits)

lemma approveProposal_no_address:
  "getWalletAddress w ETHEREUM = None \<Longrightarrow>
     approveProposal ext client w proposal =
       (emit (AlertShown ''Error'' ''Wallet address not found'' [])
          (emit (RegistryCall (OpGetWalletAddress ETHEREUM)) w))\<lparr>isConnecting := False\<rparr>"
  by (simp add: approveProposal_def getWalletAddress_def Let_def split: option.splits)

lemma approveProposal_connectedDapp:
  "getWalletAddress w ETHEREUM = Some a \<Longrightarrow>
     connectedDapp (approveProposal ext client w proposal) = Some (proposerName proposal)"
  by (simp add: approveProposal_def getWalletAddress_def Let_def split: option.splits)

lemma approveProposal_prompts:
  "prompts (trace (approveProposal ext client w proposal)) = prompts (trace w)"
  by (cases "getWalletAddress w ETHEREUM")
     (simp_all add: approveProposal_no_address approveProposal_trace split: option.splits)

lemma approveProposal_without_client:
  "replies (trace (approveProposal ext False w proposal)) = replies (trace w)"
  by (cases "getWalletAddress w ETHEREUM")
     (simp_all add: approveProposal_no_address approveProposal_trace)


subsection \<open>What a handler without the client sends\<close>

lemma isReply_approval: "\<not> isReply e \<Longrightarrow> approval e = []"
  by (cases e) simp_all

lemma no_reply_events:
  "trace w' = trace w @ es \<Longrightarrow> \<forall>e\<in>set es. \<not> isReply e \<Longrightarrow>
     replies (trace w') = replies (trace w) \<and> approvals (trace w') = approvals (trace w)"
  by (simp add: replies_def approvals_def isReply_approval)

lemma approveProposal_adds:
  "\<exists>es. trace (approveProposal ext False w proposal) = trace w @ es \<and>
        (\<forall>e\<in>set es. \<not> isReply e)"
  by (cases "getWalletAddress w ETHEREUM")
     (simp_all add: approveProposal_no_address approveProposal_trace)

lemma createWallet_adds:
  "\<exists>es. trace (snd (createWallet ext w c)) = trace w @ es \<and> (\<forall>e\<in>set es. \<not> isReply e)"
  by (simp add: createWallet_def saveWallet_trace split: sum.splits option.splits)

lemma handleSessionProposal_adds:
  "\<exists>es. trace (handleSessionProposal ext False w proposal user) = trace w @ es \<and>
        (\<forall>e\<in>set es. \<not> isReply e)"
proof (induction user arbitrary: w)
  case Nil
  show ?case
  proof (cases "hasWallet w ETHEREUM")
    case True
    then show ?thesis
      using approveProposal_adds
        [of ext "emit (RegistryCall (OpHasWallet ETHEREUM)) (w\<lparr>isConnecting := True\<rparr>)" proposal]
      by (auto simp add: handleSessionProposal_with_wallet)
  next
    case False
    then show ?thesis
      by (simp add: handleSessionProposal_no_wallet_not_tapped walletRequiredForDapps_def)
  qed
next
  case (Cons tap rest)
  show ?case
  proof (cases "hasWallet w ETHEREUM")
    case True
    then show ?thesis
      using approveProposal_adds
        [of ext "emit (RegistryCall (OpHasWallet ETHEREUM)) (w\<lparr>isConnecting := True\<rparr>)" proposal]
      by (auto simp add: handleSessionProposal_with_wallet)
  next
    case nw: False
    show ?thesis
    proof (cases "tap = ''Create Wallet''")
      case False
      with nw show ?thesis
        by (simp add: handleSessionProposal_no_wallet_not_tapped walletRequiredForDapps_def)
    next
      case True
      let ?w2 = "(emit walletRequiredForDapps
          (emit (RegistryCall (OpHasWallet ETHEREUM)) (w\<lparr>isConnecting := True\<rparr>)))
         \<lparr>isConnecting := False\<rparr>"
      let ?c = "createWallet ext (emit (RegistryCall (OpCreateWallet ETHEREUM)) ?w2) ETHEREUM"
      show ?thesis
      proof (cases "fst ?c")
        case (Inl e)
        then have c: "?c = (Inl e, snd ?c)" by (metis prod.collapse)
        have s: "snd ?c = emit (RegistryCall (OpCreateWallet ETHEREUM)) ?w2"
          using createWallet_Inl [OF c] .
        have "handleSessionProposal ext False w proposal (tap # rest) =
            emit (AlertShown ''Error'' ''Failed to create wallet'' [])
              (emit (ConsoleError ''Failed to create wallet:'') (snd ?c))"
          using nw True Inl
          by (subst handleSessionProposal.simps)
             (simp add: hasWallet_def Let_def case_prod_beta)
        then have "handleSessionProposal ext False w proposal (tap # rest) =
            emit (AlertShown ''Error'' ''Failed to create wallet'' [])
              (emit (ConsoleError ''Failed to create wallet:'')
                 (emit (RegistryCall (OpCreateWallet ETHEREUM)) ?w2))"
          unfolding s .
        then show ?thesis
          by (simp add: walletRequiredForDapps_def)
      next
        case (Inr a)
        then have c: "?c = (Inr a, snd ?c)" by (metis prod.collapse)
        obtain cs where t: "trace (snd ?c) =
            trace (emit (RegistryCall (OpCreateWallet ETHEREUM)) ?w2) @ cs"
              "\<forall>e\<in>set cs. \<not> isReply e"
          using createWallet_adds by blast
        have h: "handleSessionProposal ext False w proposal (tap # rest) =
            handleSessionProposal ext False (snd ?c) proposal rest"
          using nw True Inr
          by (subst handleSessionProposal.simps)
             (simp add: hasWallet_def Let_def case_prod_beta)
        obtain es where es: "trace (handleSessionProposal ext False (snd ?c) proposal rest) =
            trace (snd ?c) @ es" "\<forall>e\<in>set es. \<not> isReply e"
          using Cons.IH [of "snd ?c"] by blast
        show ?thesis
          unfolding h es(1) t(1) using es(2) t(2)
          by (auto simp add: walletRequiredForDapps_def)
      qed
    qed
  qed
qed

lemma handleSessionProposal_without_client:
  "replies (trace (handleSessionProposal ext False w proposal user)) = replies (trace w)"
  "approvals (trace (handleSessionProposal ext False w proposal user)) = approvals (trace w)"
  using handleSessionProposal_adds [of ext w proposal user] no_reply_events by blast+

lemma handleSessionRequest_not_approved:
  "(req_method req = ''eth_sendTransaction'' \<and> (user = [] \<or> hd user \<noteq> ''Approve'') \<longrightarrow>
      sensitive (trace (handleSessionRequest ext client w req user)) = sensitive (trace w)) \<and>
   (req_method req \<noteq> ''eth_sendTransaction'' \<and> (user = [] \<or> hd user \<noteq> ''Sign'') \<longrightarrow>
      sensitive (trace (handleSessionRequest ext client w req user)) = sensitive (trace w))"
  by (cases user)
     (auto simp add: handleSessionRequest_def Let_def trace_rejectSession
       split: list.splits option.splits)

subsection \<open>Unsupported methods\<close>

text \<open>
  Claim C6. For a session request whose method is none of \<open>eth_sendTransaction\<close>,
  \<open>eth_sign\<close>, \<open>personal_sign\<close>, the handler does nothing but call
  \<open>walletClient?.rejectSession\<close> with the reason
  \<open>{code: 4001, message: 'Method not supported'}\<close>, the code it also gives when the user
  rejects; the registry is not called. The call goes out only from a closure that holds
  the client: the listener registered by the mount effect holds none, so it leaves the
  state as it was and the request is not answered. A request of the embedded page for
  any method but \<open>eth_requestAccounts\<close> is answered with the error
  \<open>{code: 4200, message: 'Method not supported'}\<close>, through \<open>webViewRef.current?.\<close>, and
  the registry is not called either.
\<close>

theorem unsupported_method_gets_no_reply:
  "(req_method req \<noteq> ''eth_sendTransaction'' \<and> req_method req \<noteq> ''eth_sign'' \<and>
    req_method req \<noteq> ''personal_sign'' \<longrightarrow>
      sessionRequestListener ext w req user = w \<and>
      handleSessionRequest ext client w req user =
        (if client then emit (RejectSession (req_id req) 4001 ''Method not supported'') w
         else w) \<and>
      registryCalls (trace (handleSessionRequest ext client w req user)) =
        registryCalls (trace w)) \<and>
   (data_method data \<noteq> ''eth_requestAccounts'' \<longrightarrow>
      handleEthereumRequest ext w data user =
        (if webViewRef w
         then emit (InjectResponse (data_id data) (RpcError 4200 ''Method not supported'')) w
         else w) \<and>
      registryCalls (trace (handleEthereumRequest ext w data user)) = registryCalls (trace w))"
  by (simp add: sessionRequestListener_def firstRenderClient_eq handleSessionRequest_def
      handleEthereumRequest_def rejectSession_def sendResponse_def)

text \<open>
  On the sample state, whose state cell holds the client: the registered listener sends
  nothing, a handler that held the client would send the rejection with code 4001, and
  the page is answered with code 4200.
\<close>

theorem unsupported_method_gets_no_reply_witness:
  "req_method sampleOtherRequest \<noteq> ''eth_sendTransaction'' \<and>
   req_method sampleOtherRequest \<noteq> ''eth_sign'' \<and>
   req_method sampleOtherRequest \<noteq> ''personal_sign'' \<and>
   data_method chainIdPageRequest \<noteq> ''eth_requestAccounts'' \<and>
   walletClient walletWorld \<and>
   sessionRequestListener sampleExt walletWorld sampleOtherRequest [''Approve''] = walletWorld \<and>
   replies (trace (sessionRequestListener sampleExt walletWorld sampleOtherRequest [''Approve''])) =
     [] \<and>
   trace (handleSessionRequest sampleExt True walletWorld sampleOtherRequest [''Approve'']) =
     trace walletWorld @ [RejectSession 9 4001 ''Method not supported''] \<and>
   trace (handleEthereumRequest sampleExt walletWorld chainIdPageRequest [''Approve'']) =
     trace walletWorld @ [InjectResponse 4 (RpcError 4200 ''Method not supported'')]"
proof -
  have h: "req_method sampleOtherRequest \<noteq> ''eth_sendTransaction''"
    "req_method sampleOtherRequest \<noteq> ''eth_sign''"
    "req_method sampleOtherRequest \<noteq> ''personal_sign''"
    "data_method chainIdPageRequest \<noteq> ''eth_requestAccounts''"
    "req_id sampleOtherRequest = 9" "data_id chainIdPageRequest = 4"
    "webViewRef walletWorld" "walletClient walletWorld"
    "replies (trace walletWorld) = []"
    by (simp_all add: sampleOtherRequest_def chainIdPageRequest_def walletWorld_fields)
  show ?thesis
    using h
      unsupported_method_gets_no_reply [where req = sampleOtherRequest and ext = sampleExt
        and w = walletWorld and user = "[''Approve'']" and data = chainIdPageRequest
        and client = True]
    by simp
qed

subsection \<open>One transaction for one approval\<close>

text \<open>
  Claim C3. For an \<open>eth_sendTransaction\<close> request whose first parameter has the
  properties \<open>to\<close> and \<open>value\<close>, the dialog prints the two properties, and after
  \<open>Approve\<close> the handler ends in the state that one application of
  \<open>walletService.sendTransaction\<close> to these two properties, on ethereum and its first
  network, leaves, followed by relaying the hash or by the failure path. The trace gains
  exactly one call of \<open>sendTransaction\<close>, with these arguments, and the transactions
  handed to a provider are those of that one application: one, with this destination and
  the parsed amount, when the wallet, the provider and the amount are there, none
  otherwise. After \<open>Reject\<close>, or without a tap, there is no call and no submission.
\<close>

theorem approve_sends_exactly_once:
  "req_method req = ''eth_sendTransaction'' \<Longrightarrow> req_params req = Some (p # ps) \<Longrightarrow>
   paramProps p = Some (to, amount) \<Longrightarrow>
   (let prompted = emit (AlertShown ''Transaction Request''
                      (''Do you want to send this transaction?'' @ [CHR 0x0A, CHR 0x0A] @
                       ''To: '' @ jsToString to @ [CHR 0x0A] @
                       ''Value: '' @ jsToString amount)
                      [''Reject'', ''Approve'']) w;
        sent = sendTransaction ext
            (emit (RegistryCall (OpSendTransaction ETHEREUM ETH_MAINNET to amount)) prompted)
            ETHEREUM ETH_MAINNET to amount;
        approved = handleSessionRequest ext client w req (''Approve'' # rest);
        rejected = handleSessionRequest ext client w req (''Reject'' # rest);
        pending = handleSessionRequest ext client w req []
    in
     approved =
       (case fst sent of
          Inl e \<Rightarrow> transactionFailed client req (snd sent)
        | Inr tx \<Rightarrow>
            respondSessionRequest ext client req (tx_hash tx) (transactionFailed client req)
              (snd sent)) \<and>
     sendTransactionCalls (trace approved) =
       sendTransactionCalls (trace w) @ [(ETHEREUM, ETH_MAINNET, to, amount)] \<and>
     submissions (trace approved) =
       submissions (trace w) @
         (case wallets w ETHEREUM of
            None \<Rightarrow> []
          | Some wallet \<Rightarrow>
              (case providers w (clientKey ETHEREUM ETH_MAINNET) of
                 None \<Rightarrow> []
               | Some provider \<Rightarrow>
                   (case parseEther ext amount of
                      Inl e \<Rightarrow> []
                    | Inr wei \<Rightarrow> [(provider, address wallet, to, wei)]))) \<and>
     rejected = rejectSession client (req_id req) ''User rejected'' prompted \<and>
     pending = prompted \<and>
     sendTransactionCalls (trace rejected) = sendTransactionCalls (trace w) \<and>
     submissions (trace rejected) = submissions (trace w) \<and>
     sendTransactionCalls (trace pending) = sendTransactionCalls (trace w) \<and>
     submissions (trace pending) = submissions (trace w))"
proof -
  assume h: "req_method req = ''eth_sendTransaction''" "req_params req = Some (p # ps)"
    "paramProps p = Some (to, amount)"
  define prompted where "prompted = emit (AlertShown ''Transaction Request''
                      (''Do you want to send this transaction?'' @ [CHR 0x0A, CHR 0x0A] @
                       ''To: '' @ jsToString to @ [CHR 0x0A] @
                       ''Value: '' @ jsToString amount)
                      [''Reject'', ''Approve'']) w"
  define sent where "sent = sendTransaction ext
            (emit (RegistryCall (OpSendTransaction ETHEREUM ETH_MAINNET to amount)) prompted)
            ETHEREUM ETH_MAINNET to amount"
  have ap: "handleSessionRequest ext client w req (''Approve'' # rest) =
      approveTransaction ext client prompted req to amount"
    using h by (simp add: prompted_def handleSessionRequest_def transactionPrompt_def)
  have ex: "approveTransaction ext client prompted req to amount =
       (case fst sent of
          Inl e \<Rightarrow> transactionFailed client req (snd sent)
        | Inr tx \<Rightarrow>
            respondSessionRequest ext client req (tx_hash tx) (transactionFailed client req)
              (snd sent))"
    unfolding sent_def
    by (simp add: approveTransaction_def firstEthereumNetwork_eq case_prod_beta)
  have tr: "trace (snd sent) = trace w @
      [AlertShown ''Transaction Request''
         (''Do you want to send this transaction?'' @ [CHR 0x0A, CHR 0x0A] @
          ''To: '' @ jsToString to @ [CHR 0x0A] @ ''Value: '' @ jsToString amount)
         [''Reject'', ''Approve''],
       RegistryCall (OpSendTransaction ETHEREUM ETH_MAINNET to amount)] @
      (case wallets w ETHEREUM of
         None \<Rightarrow> []
       | Some wallet \<Rightarrow>
           (case providers w (clientKey ETHEREUM ETH_MAINNET) of
              None \<Rightarrow> []
            | Some provider \<Rightarrow>
                (case parseEther ext amount of
                   Inl e \<Rightarrow> []
                 | Inr wei \<Rightarrow> [SignerSendTransaction provider (address wallet) to wei])))"
    unfolding sent_def prompted_def
    by (simp add: trace_sendTransaction split: option.splits sum.splits)
  have rj: "handleSessionRequest ext client w req (''Reject'' # rest) =
       rejectSession client (req_id req) ''User rejected'' prompted"
    using h by (simp add: prompted_def handleSessionRequest_def transactionPrompt_def)
  have no: "handleSessionRequest ext client w req [] = prompted"
    using h by (simp add: prompted_def handleSessionRequest_def transactionPrompt_def)
  have post: "sendTransactionCalls (trace (approveTransaction ext client prompted req to amount)) =
        sendTransactionCalls (trace (snd sent))"
    "submissions (trace (approveTransaction ext client prompted req to amount)) =
        submissions (trace (snd sent))"
    by (simp_all add: ex respondSessionRequest_def trace_transactionFailed Let_def
        split: sum.splits option.splits)
  have c1: "sendTransactionCalls (trace (approveTransaction ext client prompted req to amount)) =
       sendTransactionCalls (trace w) @ [(ETHEREUM, ETH_MAINNET, to, amount)]"
    unfolding post tr by (simp split: sum.splits option.splits)
  have c2: "submissions (trace (approveTransaction ext client prompted req to amount)) =
       submissions (trace w) @
         (case wallets w ETHEREUM of
            None \<Rightarrow> []
          | Some wallet \<Rightarrow>
              (case providers w (clientKey ETHEREUM ETH_MAINNET) of
                 None \<Rightarrow> []
               | Some provider \<Rightarrow>
                   (case parseEther ext amount of
                      Inl e \<Rightarrow> []
                    | Inr wei \<Rightarrow> [(provider, address wallet, to, wei)])))"
    unfolding post tr by (simp split: sum.splits option.splits)
  have c3: "sendTransactionCalls (trace (rejectSession client (req_id req) ''User rejected'' prompted)) =
      sendTransactionCalls (trace w)"
    "submissions (trace (rejectSession client (req_id req) ''User rejected'' prompted)) =
      submissions (trace w)"
    "sendTransactionCalls (trace prompted) = sendTransactionCalls (trace w)"
    "submissions (trace prompted) = submissions (trace w)"
    by (simp_all add: trace_rejectSession prompted_def)
  show ?thesis
    unfolding Let_def ap rj no prompted_def [symmetric] sent_def [symmetric]
    using ex c1 c2 c3 by simp
qed

text \<open>
  On the sample state with a wallet: one call, one submission to the provider of the
  ethereum main network from the wallet's address; none after \<open>Reject\<close> or without a
  tap.
\<close>

theorem approve_sends_exactly_once_witness:
  "req_method sampleTxRequest = ''eth_sendTransaction'' \<and>
   req_params sampleTxRequest =
     Some [ParamValue ''[object Object]'' (JsString ''0xDEF'') (JsString ''1.5'')] \<and>
   paramProps (ParamValue ''[object Object]'' (JsString ''0xDEF'') (JsString ''1.5'')) =
     Some (JsString ''0xDEF'', JsString ''1.5'') \<and>
   trace (handleSessionRequest sampleExt False walletWorld sampleTxRequest [''Approve'']) =
     trace walletWorld @
       [AlertShown ''Transaction Request''
          (''Do you want to send this transaction?'' @ [CHR 0x0A, CHR 0x0A] @
           ''To: 0xDEF'' @ [CHR 0x0A] @ ''Value: 1.5'') [''Reject'', ''Approve''],
        RegistryCall (OpSendTransaction ETHEREUM ETH_MAINNET (JsString ''0xDEF'')
          (JsString ''1.5'')),
        SignerSendTransaction (DefaultProvider ''mainnet'') ''0xABC'' (JsString ''0xDEF'') 1] \<and>
   sendTransactionCalls
     (trace (handleSessionRequest sampleExt False walletWorld sampleTxRequest [''Approve''])) =
     [(ETHEREUM, ETH_MAINNET, JsString ''0xDEF'', JsString ''1.5'')] \<and>
   submissions
     (trace (handleSessionRequest sampleExt False walletWorld sampleTxRequest [''Approve''])) =
     [(DefaultProvider ''mainnet'', ''0xABC'', JsString ''0xDEF'', 1)] \<and>
   sendTransactionCalls
     (trace (handleSessionRequest sampleExt False walletWorld sampleTxRequest [''Reject''])) =
     [] \<and>
   submissions
     (trace (handleSessionRequest sampleExt False walletWorld sampleTxRequest [''Reject''])) =
     [] \<and>
   sendTransactionCalls
     (trace (handleSessionRequest sampleExt False walletWorld sampleTxRequest [])) = [] \<and>
   submissions
     (trace (handleSessionRequest sampleExt False walletWorld sampleTxRequest [])) = []"
proof -
  have h: "req_method sampleTxRequest = ''eth_sendTransaction''"
    "req_params sampleTxRequest =
       Some [ParamValue ''[object Object]'' (JsString ''0xDEF'') (JsString ''1.5'')]"
    "paramProps (ParamValue ''[object Object]'' (JsString ''0xDEF'') (JsString ''1.5'')) =
       Some (JsString ''0xDEF'', JsString ''1.5'')"
    by (simp_all add: sampleTxRequest_def)
  have k: "wallets walletWorld ETHEREUM = Some sampleWallet"
    "providers walletWorld (clientKey ETHEREUM ETH_MAINNET) = Some (DefaultProvider ''mainnet'')"
    "parseEther sampleExt (JsString ''1.5'') = Inr 1"
    "address sampleWallet = ''0xABC''"
    "sendTransactionCalls (trace walletWorld) = []" "submissions (trace walletWorld) = []"
    by (simp_all add: walletWorld_wallets walletWorld_clients readyWorld_clients
        walletWorld_fields sampleExt_def sampleWallet_def)
  have s: "\<exists>tx. fst (sendTransaction sampleExt
      (emit (RegistryCall (OpSendTransaction ETHEREUM ETH_MAINNET (JsString ''0xDEF'')
               (JsString ''1.5'')))
         (emit (AlertShown ''Transaction Request''
                  (''Do you want to send this transaction?'' @ [CHR 0x0A, CHR 0x0A] @
                   ''To: '' @ jsToString (JsString ''0xDEF'') @ [CHR 0x0A] @
                   ''Value: '' @ jsToString (JsString ''1.5''))
                  [''Reject'', ''Approve'']) walletWorld))
      ETHEREUM ETH_MAINNET (JsString ''0xDEF'') (JsString ''1.5'')) = Inr tx"
    using k by (simp add: sendTransaction_def getProvider_def Let_def sampleExt_def)
  then obtain tx where tx: "fst (sendTransaction sampleExt
      (emit (RegistryCall (OpSendTransaction ETHEREUM ETH_MAINNET (JsString ''0xDEF'')
               (JsString ''1.5'')))
         (emit (AlertShown ''Transaction Request''
                  (''Do you want to send this transaction?'' @ [CHR 0x0A, CHR 0x0A] @
                   ''To: '' @ jsToString (JsString ''0xDEF'') @ [CHR 0x0A] @
                   ''Value: '' @ jsToString (JsString ''1.5''))
                  [''Reject'', ''Approve'']) walletWorld))
      ETHEREUM ETH_MAINNET (JsString ''0xDEF'') (JsString ''1.5'')) = Inr tx" ..
  show ?thesis
    using h k tx approve_sends_exactly_once [OF h, where ext = sampleExt and w = walletWorld
        and client = False and rest = "[]"]
    by (simp add: Let_def trace_sendTransaction respondSessionRequest_def
        trace_rejectSession)
qed

subsection \<open>Where the user is asked\<close>

text \<open>
  Claim C1, as the code has it. Whatever client the closure holds, a session request
  adds no event that discloses or changes anything unless the user taps \<open>Approve\<close>
  (\<open>Sign\<close>) on its dialog. Without an ethereum wallet, a session proposal and
  \<open>eth_requestAccounts\<close> add no such event unless the user taps \<open>Create Wallet\<close>. With
  an ethereum wallet and the web view mounted, \<open>eth_requestAccounts\<close> is answered with
  the address of the wallet whatever the user does, with no dialog. With an ethereum
  wallet a session proposal goes straight to the path that approves it, and shows no
  dialog with a choice.
\<close>

theorem approval_gates_of_the_bridge:
  "(req_method req = ''eth_sendTransaction'' \<and> (user = [] \<or> hd user \<noteq> ''Approve'') \<longrightarrow>
      sensitive (trace (handleSessionRequest ext client w req user)) = sensitive (trace w)) \<and>
   (req_method req \<noteq> ''eth_sendTransaction'' \<and> (user = [] \<or> hd user \<noteq> ''Sign'') \<longrightarrow>
      sensitive (trace (handleSessionRequest ext client w req user)) = sensitive (trace w)) \<and>
   (\<not> hasWallet w ETHEREUM \<and> (user = [] \<or> hd user \<noteq> ''Create Wallet'') \<longrightarrow>
      sensitive (trace (handleSessionProposal ext client w proposal user)) =
        sensitive (trace w) \<and>
      sensitive (trace (handleEthereumRequest ext w data user)) = sensitive (trace w)) \<and>
   (getWalletAddress w ETHEREUM = Some addr \<and> webViewRef w \<and>
    data_method data = ''eth_requestAccounts'' \<longrightarrow>
      trace (handleEthereumRequest ext w data user) =
        trace w @ [RegistryCall (OpHasWallet ETHEREUM),
                   RegistryCall (OpGetWalletAddress ETHEREUM),
                   InjectResponse (data_id data) (RpcResult [addr])]) \<and>
   (hasWallet w ETHEREUM \<longrightarrow>
      handleSessionProposal ext client w proposal user =
        approveProposal ext client
          (emit (RegistryCall (OpHasWallet ETHEREUM)) (w\<lparr>isConnecting := True\<rparr>)) proposal \<and>
      prompts (trace (handleSessionProposal ext client w proposal user)) = prompts (trace w))"
proof (intro conjI impI)
  assume "req_method req = ''eth_sendTransaction'' \<and> (user = [] \<or> hd user \<noteq> ''Approve'')"
  then show "sensitive (trace (handleSessionRequest ext client w req user)) =
      sensitive (trace w)"
    using handleSessionRequest_not_approved by blast
next
  assume "req_method req \<noteq> ''eth_sendTransaction'' \<and> (user = [] \<or> hd user \<noteq> ''Sign'')"
  then show "sensitive (trace (handleSessionRequest ext client w req user)) =
      sensitive (trace w)"
    using handleSessionRequest_not_approved by blast
next
  assume "\<not> hasWallet w ETHEREUM \<and> (user = [] \<or> hd user \<noteq> ''Create Wallet'')"
  then show "sensitive (trace (handleSessionProposal ext client w proposal user)) =
      sensitive (trace w)"
    by (simp add: handleSessionProposal_no_wallet_not_tapped walletRequiredForDapps_def)
next
  assume h: "\<not> hasWallet w ETHEREUM \<and> (user = [] \<or> hd user \<noteq> ''Create Wallet'')"
  show "sensitive (trace (handleEthereumRequest ext w data user)) = sensitive (trace w)"
  proof (cases "data_method data = ''eth_requestAccounts''")
    case True
    with h show ?thesis
      by (simp add: handleEthereumRequest_no_wallet_not_tapped walletRequiredForPage_def)
  next
    case False
    then show ?thesis
      by (simp add: handleEthereumRequest_def sendResponse_def)
  qed
next
  assume "getWalletAddress w ETHEREUM = Some addr \<and> webViewRef w \<and>
    data_method data = ''eth_requestAccounts''"
  then show "trace (handleEthereumRequest ext w data user) =
        trace w @ [RegistryCall (OpHasWallet ETHEREUM),
                   RegistryCall (OpGetWalletAddress ETHEREUM),
                   InjectResponse (data_id data) (RpcResult [addr])]"
    by (simp add: handleEthereumRequest_wallet_trace)
next
  assume "hasWallet w ETHEREUM"
  then show "handleSessionProposal ext client w proposal user =
        approveProposal ext client
          (emit (RegistryCall (OpHasWallet ETHEREUM)) (w\<lparr>isConnecting := True\<rparr>)) proposal"
    by (rule handleSessionProposal_with_wallet)
next
  assume "hasWallet w ETHEREUM"
  then show "prompts (trace (handleSessionProposal ext client w proposal user)) =
      prompts (trace w)"
    by (simp add: handleSessionProposal_with_wallet approveProposal_prompts)
qed

text \<open>
  On the sample states: nothing is disclosed after \<open>Reject\<close> or \<open>Cancel\<close>; with a
  wallet the page is handed the address, and the proposal meets no dialog with a choice.
\<close>

theorem approval_gates_of_the_bridge_witness:
  "req_method sampleTxRequest = ''eth_sendTransaction'' \<and>
   req_method sampleSignRequest \<noteq> ''eth_sendTransaction'' \<and>
   \<not> hasWallet readyWorld ETHEREUM \<and>
   hasWallet walletWorld ETHEREUM \<and>
   getWalletAddress walletWorld ETHEREUM = Some ''0xABC'' \<and>
   webViewRef walletWorld \<and>
   data_method accountsPageRequest = ''eth_requestAccounts'' \<and>
   sensitive (trace (handleSessionRequest sampleExt False readyWorld sampleTxRequest
     [''Reject''])) = [] \<and>
   sensitive (trace (handleSessionRequest sampleExt False readyWorld sampleSignRequest
     [''Reject''])) = [] \<and>
   sensitive (trace (handleSessionProposal sampleExt False readyWorld sampleProposal
     [''Cancel''])) = [] \<and>
   sensitive (trace (handleEthereumRequest sampleExt readyWorld accountsPageRequest
     [''Cancel''])) = [] \<and>
   trace (handleEthereumRequest sampleExt walletWorld accountsPageRequest []) =
     trace walletWorld @
       [RegistryCall (OpHasWallet ETHEREUM), RegistryCall (OpGetWalletAddress ETHEREUM),
        InjectResponse 3 (RpcResult [''0xABC''])] \<and>
   prompts (trace (handleSessionProposal sampleExt False walletWorld sampleProposal [])) = []"
proof -
  have h: "req_method sampleTxRequest = ''eth_sendTransaction''"
    "req_method sampleSignRequest \<noteq> ''eth_sendTransaction''"
    "\<not> hasWallet readyWorld ETHEREUM"
    "data_method accountsPageRequest = ''eth_requestAccounts''"
    "sensitive (trace readyWorld) = []"
    "data_id accountsPageRequest = 3"
    by (simp_all add: sampleTxRequest_def sampleSignRequest_def hasWallet_def
        readyWorld_fields accountsPageRequest_def)
  have k: "hasWallet walletWorld ETHEREUM"
    "getWalletAddress walletWorld ETHEREUM = Some ''0xABC''"
    "webViewRef walletWorld"
    "prompts (trace walletWorld) = []"
    by (simp_all add: walletWorld_fields)
  show ?thesis
    using h k
      approval_gates_of_the_bridge [where req = sampleTxRequest and user = "[''Reject'']"
         and ext = sampleExt and w = readyWorld and proposal = sampleProposal
         and data = accountsPageRequest and addr = "''0xABC''" and client = False]
      approval_gates_of_the_bridge [where req = sampleSignRequest and user = "[''Reject'']"
         and ext = sampleExt and w = readyWorld and proposal = sampleProposal
         and data = accountsPageRequest and addr = "''0xABC''" and client = False]
      approval_gates_of_the_bridge [where req = sampleSignRequest and user = "[''Cancel'']"
         and ext = sampleExt and w = readyWorld and proposal = sampleProposal
         and data = accountsPageRequest and addr = "''0xABC''" and client = False]
      approval_gates_of_the_bridge [where req = sampleSignRequest and user = "[]"
         and ext = sampleExt and w = walletWorld and proposal = sampleProposal
         and data = accountsPageRequest and addr = "''0xABC''" and client = False]
    by (simp add: approveProposal_prompts)
qed

text \<open>
  Claim C1 as it is stated, on the sample state with a wallet and a user who taps
  nothing: the page asks for the accounts and is handed the address of the wallet, and
  no dialog with a choice was shown.
\<close>

theorem accounts_are_disclosed_without_a_prompt_counterexample:
  "trace (handleEthereumRequest sampleExt walletWorld accountsPageRequest []) =
     trace walletWorld @
       [RegistryCall (OpHasWallet ETHEREUM), RegistryCall (OpGetWalletAddress ETHEREUM),
        InjectResponse 3 (RpcResult [''0xABC''])] \<and>
   prompts (trace (handleEthereumRequest sampleExt walletWorld accountsPageRequest [])) = []"
  by (simp add: handleEthereumRequest_wallet_trace [of walletWorld "''0xABC''"]
      walletWorld_fields accountsPageRequest_def)

subsection \<open>The accounts of an approved session\<close>

text \<open>
  Claim C2. The listener registered for session proposals issues no approval, whatever
  the state and whatever the user taps. With an ethereum wallet of address \<open>a\<close> it reads
  the address, records the name of the dApp and shows \<open>Connected\<close>, and that is all: the
  namespaces it built are not sent. What the handler builds, and what a closure holding
  the client would send, is one approval that gives every required namespace, whatever
  its key, the one account \<open>eip155:1:a\<close>.
\<close>

theorem registered_listener_issues_no_approval:
  "approvals (trace (sessionProposalListener ext w proposal user)) = approvals (trace w) \<and>
   (getWalletAddress w ETHEREUM = Some a \<longrightarrow>
      trace (sessionProposalListener ext w proposal user) =
        trace w @ [RegistryCall (OpHasWallet ETHEREUM),
                   RegistryCall (OpGetWalletAddress ETHEREUM),
                   AlertShown ''Connected'' (''Connected to '' @ proposerName proposal) []] \<and>
      connectedDapp (sessionProposalListener ext w proposal user) =
        Some (proposerName proposal) \<and>
      approvals (trace (handleSessionProposal ext True w proposal user)) =
        approvals (trace w) @
          [(prop_id proposal,
            map (\<lambda>(key, namespace).
                   (key, \<lparr>accounts = [''eip155:1:'' @ a],
                          methods = rn_methods namespace,
                          events = rn_events namespace\<rparr>))
              (requiredNamespaces proposal))])"
proof (intro conjI impI)
  show "approvals (trace (sessionProposalListener ext w proposal user)) = approvals (trace w)"
    by (simp add: sessionProposalListener_def firstRenderClient_eq
        handleSessionProposal_without_client)
next
  assume a: "getWalletAddress w ETHEREUM = Some a"
  then have hw: "hasWallet w ETHEREUM"
    by (auto simp add: getWalletAddress_def hasWallet_def split: option.splits)
  have a1: "getWalletAddress
      (emit (RegistryCall (OpHasWallet ETHEREUM)) (w\<lparr>isConnecting := True\<rparr>)) ETHEREUM = Some a"
    using a by (simp add: getWalletAddress_def emit_def)
  show "trace (sessionProposalListener ext w proposal user) =
        trace w @ [RegistryCall (OpHasWallet ETHEREUM),
                   RegistryCall (OpGetWalletAddress ETHEREUM),
                   AlertShown ''Connected'' (''Connected to '' @ proposerName proposal) []]"
    by (simp add: sessionProposalListener_def firstRenderClient_eq
        handleSessionProposal_with_wallet [OF hw] approveProposal_trace [OF a1])
  show "connectedDapp (sessionProposalListener ext w proposal user) =
        Some (proposerName proposal)"
    by (simp add: sessionProposalListener_def firstRenderClient_eq
        handleSessionProposal_with_wallet [OF hw] approveProposal_connectedDapp [OF a1])
  show "approvals (trace (handleSessionProposal ext True w proposal user)) =
        approvals (trace w) @
          [(prop_id proposal,
            map (\<lambda>(key, namespace).
                   (key, \<lparr>accounts = [''eip155:1:'' @ a],
                          methods = rn_methods namespace,
                          events = rn_events namespace\<rparr>))
              (requiredNamespaces proposal))]"
    by (simp add: handleSessionProposal_with_wallet [OF hw] approveProposal_trace [OF a1]
        approvedNamespaces_def split: option.splits)
qed

text \<open>
  On the sample state with a wallet, whose state cell holds the client: the listener
  reports the connection to Uniswap and has approved nothing; for a proposal requiring
  \<open>eip155:137\<close> a handler that held the client would grant the account
  \<open>eip155:1:0xABC\<close>.
\<close>

theorem registered_listener_issues_no_approval_witness:
  "getWalletAddress walletWorld ETHEREUM = Some ''0xABC'' \<and>
   walletClient walletWorld \<and>
   approvals (trace (sessionProposalListener sampleExt walletWorld sampleProposal [])) = [] \<and>
   trace (sessionProposalListener sampleExt walletWorld sampleProposal []) =
     trace walletWorld @
       [RegistryCall (OpHasWallet ETHEREUM), RegistryCall (OpGetWalletAddress ETHEREUM),
        AlertShown ''Connected'' ''Connected to Uniswap'' []] \<and>
   connectedDapp (sessionProposalListener sampleExt walletWorld sampleProposal []) =
     Some ''Uniswap'' \<and>
   approvals (trace (handleSessionProposal sampleExt True walletWorld polygonProposal [])) =
     [(2, [(''eip155:137'', \<lparr>accounts = [''eip155:1:0xABC''],
                              methods = [''eth_sendTransaction''],
                              events = [''chainChanged'']\<rparr>)])]"
proof -
  have h: "getWalletAddress walletWorld ETHEREUM = Some ''0xABC''"
    "walletClient walletWorld" "approvals (trace walletWorld) = []"
    "proposerName sampleProposal = ''Uniswap''"
    by (simp_all add: walletWorld_fields sampleProposal_def)
  show ?thesis
    using h
      registered_listener_issues_no_approval [where ext = sampleExt and w = walletWorld
        and proposal = sampleProposal and user = "[]" and a = "''0xABC''"]
      registered_listener_issues_no_approval [where ext = sampleExt and w = walletWorld
        and proposal = polygonProposal and user = "[]" and a = "''0xABC''"]
    by (simp add: polygonProposal_def)
qed

subsection \<open>Failures\<close>

lemma results_rejectSession [simp]:
  "results (trace (rejectSession client i m w)) = results (trace w)"
  "registryCalls (trace (rejectSession client i m w)) = registryCalls (trace w)"
  by (simp_all add: trace_rejectSession)

lemma results_failed [simp]:
  "results (trace (transactionFailed client req w)) = results (trace w)"
  "results (trace (signingFailed client req w)) = results (trace w)"
  by (simp_all add: trace_transactionFailed trace_signingFailed)

lemma results_sendTransaction [simp]:
  "results (trace (snd (sendTransaction ext w c n to amount))) = results (trace w)"
  by (simp add: trace_sendTransaction split: option.splits sum.splits)

lemma results_signMessage [simp]:
  "results (trace (snd (signMessage ext w c message))) = results (trace w)"
  by (simp add: trace_signMessage split: option.splits)

text \<open>
  Claim C7, as the code has it. Whatever client the closure holds: a session proposal
  that meets no ethereum wallet only shows the dialog \<open>Wallet Required\<close>, and nothing
  is sent to the peer unless the user taps \<open>Create Wallet\<close>. A request for
  \<open>eth_sendTransaction\<close> (\<open>eth_sign\<close>, \<open>personal_sign\<close>) that the user leaves
  untapped only shows its dialog; after \<open>Reject\<close> it runs
  \<open>walletClient?.rejectSession\<close> with \<open>'User rejected'\<close>, calls no operation of the
  registry and relays no result; when \<open>sendTransaction\<close> (\<open>signMessage\<close>) fails after
  \<open>Approve\<close> (\<open>Sign\<close>), the failure is caught: the handler logs it and runs
  \<open>walletClient?.rejectSession\<close> with \<open>'Transaction failed'\<close> (\<open>'Signing failed'\<close>), and
  no result is relayed.
\<close>

theorem failures_relay_no_result:
  "(\<not> hasWallet w ETHEREUM \<and> (user = [] \<or> hd user \<noteq> ''Create Wallet'') \<longrightarrow>
      handleSessionProposal ext client w proposal user =
        (emit walletRequiredForDapps
           (emit (RegistryCall (OpHasWallet ETHEREUM)) (w\<lparr>isConnecting := True\<rparr>)))
          \<lparr>isConnecting := False\<rparr> \<and>
      replies (trace (handleSessionProposal ext client w proposal user)) =
        replies (trace w)) \<and>
   (req_method req = ''eth_sendTransaction'' \<and> req_params req = Some (p # ps) \<and>
    paramProps p = Some (to, amount) \<and>
    prompted = emit (AlertShown ''Transaction Request'' (transactionPrompt to amount)
                       [''Reject'', ''Approve'']) w \<longrightarrow>
      handleSessionRequest ext client w req [] = prompted \<and>
      handleSessionRequest ext client w req (''Reject'' # rest) =
        rejectSession client (req_id req) ''User rejected'' prompted \<and>
      registryCalls (trace (handleSessionRequest ext client w req (''Reject'' # rest))) =
        registryCalls (trace w) \<and>
      results (trace (handleSessionRequest ext client w req (''Reject'' # rest))) =
        results (trace w) \<and>
      (isl (fst (sendTransaction ext w ETHEREUM ETH_MAINNET to amount)) \<longrightarrow>
         handleSessionRequest ext client w req (''Approve'' # rest) =
           transactionFailed client req
             (snd (sendTransaction ext
                     (emit (RegistryCall (OpSendTransaction ETHEREUM ETH_MAINNET to amount))
                        prompted)
                     ETHEREUM ETH_MAINNET to amount)) \<and>
         results (trace (handleSessionRequest ext client w req (''Approve'' # rest))) =
           results (trace w))) \<and>
   ((req_method req = ''eth_sign'' \<or> req_method req = ''personal_sign'') \<and>
    req_params req = Some qs \<and>
    message = (case qs of [] \<Rightarrow> JsUndefined | q # _ \<Rightarrow> paramArg q) \<and>
    asked = emit (AlertShown ''Signature Request'' ''Do you want to sign this message?''
                    [''Reject'', ''Sign'']) w \<longrightarrow>
      handleSessionRequest ext client w req [] = asked \<and>
      handleSessionRequest ext client w req (''Reject'' # rest) =
        rejectSession client (req_id req) ''User rejected'' asked \<and>
      registryCalls (trace (handleSessionRequest ext client w req (''Reject'' # rest))) =
        registryCalls (trace w) \<and>
      results (trace (handleSessionRequest ext client w req (''Reject'' # rest))) =
        results (trace w) \<and>
      (isl (fst (signMessage ext w ETHEREUM message)) \<longrightarrow>
         handleSessionRequest ext client w req (''Sign'' # rest) =
           signingFailed client req
             (snd (signMessage ext
                     (emit (RegistryCall (OpSignMessage ETHEREUM message)) asked)
                     ETHEREUM message)) \<and>
         results (trace (handleSessionRequest ext client w req (''Sign'' # rest))) =
           results (trace w)))"
proof (intro conjI impI; (elim conjE)?)
  assume nw: "\<not> hasWallet w ETHEREUM" and u: "user = [] \<or> hd user \<noteq> ''Create Wallet''"
  show "handleSessionProposal ext client w proposal user =
        (emit walletRequiredForDapps
           (emit (RegistryCall (OpHasWallet ETHEREUM)) (w\<lparr>isConnecting := True\<rparr>)))
          \<lparr>isConnecting := False\<rparr>"
    using nw u by (rule handleSessionProposal_no_wallet_not_tapped)
  show "replies (trace (handleSessionProposal ext client w proposal user)) =
        replies (trace w)"
    using nw u by (simp add: handleSessionProposal_no_wallet_not_tapped walletRequiredForDapps_def)
next
  assume h: "req_method req = ''eth_sendTransaction''" "req_params req = Some (p # ps)"
    "paramProps p = Some (to, amount)"
    and pr: "prompted = emit (AlertShown ''Transaction Request'' (transactionPrompt to amount)
                       [''Reject'', ''Approve'']) w"
  show no: "handleSessionRequest ext client w req [] = prompted"
    using h pr by (simp add: handleSessionRequest_def)
  show rj: "handleSessionRequest ext client w req (''Reject'' # rest) =
        rejectSession client (req_id req) ''User rejected'' prompted"
    using h pr by (simp add: handleSessionRequest_def)
  show "registryCalls (trace (handleSessionRequest ext client w req (''Reject'' # rest))) =
        registryCalls (trace w)"
    unfolding rj by (simp add: pr)
  show "results (trace (handleSessionRequest ext client w req (''Reject'' # rest))) =
        results (trace w)"
    unfolding rj by (simp add: pr)
  {
    assume f: "isl (fst (sendTransaction ext w ETHEREUM ETH_MAINNET to amount))"
    have f': "isl (fst (sendTransaction ext
                     (emit (RegistryCall (OpSendTransaction ETHEREUM ETH_MAINNET to amount))
                        prompted)
                     ETHEREUM ETH_MAINNET to amount))"
      using f by (simp add: pr fst_sendTransaction_emit)
    show ap: "handleSessionRequest ext client w req (''Approve'' # rest) =
           transactionFailed client req
             (snd (sendTransaction ext
                     (emit (RegistryCall (OpSendTransaction ETHEREUM ETH_MAINNET to amount))
                        prompted)
                     ETHEREUM ETH_MAINNET to amount))"
      using h pr [symmetric] f'
      by (auto simp add: handleSessionRequest_def approveTransaction_def
          firstEthereumNetwork_eq case_prod_beta isl_def)
    show "results (trace (handleSessionRequest ext client w req (''Approve'' # rest))) =
           results (trace w)"
      unfolding ap by (simp add: pr)
  }
next
  assume m: "req_method req = ''eth_sign'' \<or> req_method req = ''personal_sign''"
    and h: "req_params req = Some qs"
    "message = (case qs of [] \<Rightarrow> JsUndefined | q # _ \<Rightarrow> paramArg q)"
    and pr: "asked = emit (AlertShown ''Signature Request'' ''Do you want to sign this message?''
                    [''Reject'', ''Sign'']) w"
  show no: "handleSessionRequest ext client w req [] = asked"
    using m pr by (auto simp add: handleSessionRequest_def)
  show rj: "handleSessionRequest ext client w req (''Reject'' # rest) =
        rejectSession client (req_id req) ''User rejected'' asked"
    using m pr by (auto simp add: handleSessionRequest_def)
  show "registryCalls (trace (handleSessionRequest ext client w req (''Reject'' # rest))) =
        registryCalls (trace w)"
    unfolding rj by (simp add: pr)
  show "results (trace (handleSessionRequest ext client w req (''Reject'' # rest))) =
        results (trace w)"
    unfolding rj by (simp add: pr)
  {
    assume f: "isl (fst (signMessage ext w ETHEREUM message))"
    have f': "isl (fst (signMessage ext
                     (emit (RegistryCall (OpSignMessage ETHEREUM message)) asked)
                     ETHEREUM message))"
      using f by (simp add: pr fst_signMessage_emit)
    show ap: "handleSessionRequest ext client w req (''Sign'' # rest) =
           signingFailed client req
             (snd (signMessage ext
                     (emit (RegistryCall (OpSignMessage ETHEREUM message)) asked)
                     ETHEREUM message))"
      using m h pr [symmetric] f'
      by (auto simp add: handleSessionRequest_def approveSigning_def
          case_prod_beta isl_def Let_def)
    show "results (trace (handleSessionRequest ext client w req (''Sign'' # rest))) =
           results (trace w)"
      unfolding ap by (simp add: pr)
  }
qed

text \<open>
  On the sample state without a wallet, for a closure without the client: the cancelled
  proposal sends nothing, and the approved transaction and the approved signature fail
  on the missing wallet and are logged.
\<close>

theorem failures_relay_no_result_witness:
  "\<not> hasWallet readyWorld ETHEREUM \<and>
   req_method sampleTxRequest = ''eth_sendTransaction'' \<and>
   req_params sampleTxRequest =
     Some [ParamValue ''[object Object]'' (JsString ''0xDEF'') (JsString ''1.5'')] \<and>
   isl (fst (sendTransaction sampleExt readyWorld ETHEREUM ETH_MAINNET
               (JsString ''0xDEF'') (JsString ''1.5''))) \<and>
   req_method sampleSignRequest = ''personal_sign'' \<and>
   req_params sampleSignRequest = Some [ParamString ''hello'', ParamString ''0xABC''] \<and>
   isl (fst (signMessage sampleExt readyWorld ETHEREUM (JsString ''hello''))) \<and>
   replies (trace (handleSessionProposal sampleExt False readyWorld sampleProposal
     [''Cancel''])) = [] \<and>
   results (trace (handleSessionRequest sampleExt False readyWorld sampleTxRequest
     [''Reject''])) = [] \<and>
   trace (handleSessionRequest sampleExt False readyWorld sampleTxRequest [''Approve'']) =
     trace readyWorld @
       [AlertShown ''Transaction Request''
          (transactionPrompt (JsString ''0xDEF'') (JsString ''1.5'')) [''Reject'', ''Approve''],
        RegistryCall (OpSendTransaction ETHEREUM ETH_MAINNET (JsString ''0xDEF'')
          (JsString ''1.5'')),
        ConsoleError ''Transaction failed:''] \<and>
   trace (handleSessionRequest sampleExt False readyWorld sampleSignRequest [''Sign'']) =
     trace readyWorld @
       [AlertShown ''Signature Request'' ''Do you want to sign this message?''
          [''Reject'', ''Sign''],
        RegistryCall (OpSignMessage ETHEREUM (JsString ''hello'')),
        ConsoleError ''Signing failed:'']"
proof -
  have h: "\<not> hasWallet readyWorld ETHEREUM"
    "req_method sampleTxRequest = ''eth_sendTransaction''"
    "req_params sampleTxRequest =
       Some [ParamValue ''[object Object]'' (JsString ''0xDEF'') (JsString ''1.5'')]"
    "isl (fst (sendTransaction sampleExt readyWorld ETHEREUM ETH_MAINNET
               (JsString ''0xDEF'') (JsString ''1.5'')))"
    "req_method sampleSignRequest = ''personal_sign''"
    "req_params sampleSignRequest = Some [ParamString ''hello'', ParamString ''0xABC'']"
    "isl (fst (signMessage sampleExt readyWorld ETHEREUM (JsString ''hello'')))"
    "replies (trace readyWorld) = []" "results (trace readyWorld) = []"
    by (simp_all add: hasWallet_def readyWorld_fields sampleTxRequest_def sampleSignRequest_def
        sendTransaction_def signMessage_def)
  show ?thesis
    using h
      failures_relay_no_result [where ext = sampleExt and client = False and w = readyWorld
        and proposal = sampleProposal and user = "[''Cancel'']" and req = sampleTxRequest
        and p = "ParamValue ''[object Object]'' (JsString ''0xDEF'') (JsString ''1.5'')"
        and ps = "[]" and to = "JsString ''0xDEF''" and amount = "JsString ''1.5''"
        and rest = "[]"
        and prompted = "emit (AlertShown ''Transaction Request''
           (transactionPrompt (JsString ''0xDEF'') (JsString ''1.5''))
           [''Reject'', ''Approve'']) readyWorld"]
      failures_relay_no_result [where ext = sampleExt and client = False and w = readyWorld
        and proposal = sampleProposal and user = "[''Cancel'']" and req = sampleSignRequest
        and qs = "[ParamString ''hello'', ParamString ''0xABC'']"
        and message = "JsString ''hello''" and rest = "[]"
        and asked = "emit (AlertShown ''Signature Request''
           ''Do you want to sign this message?'' [''Reject'', ''Sign'']) readyWorld"]
    by (simp add: trace_transactionFailed trace_signingFailed trace_sendTransaction
        trace_signMessage readyWorld_fields)
qed

text \<open>
  Claim C7 as it is stated, on the sample state without a wallet: the proposal reaches
  the registered listener and fails the wallet gate, the user taps \<open>Cancel\<close>, and
  nothing at all is sent to the peer.
\<close>

theorem cancelled_proposal_is_left_unanswered_counterexample:
  "\<not> hasWallet readyWorld ETHEREUM \<and>
   trace (sessionProposalListener sampleExt readyWorld sampleProposal [''Cancel'']) =
     trace readyWorld @
       [RegistryCall (OpHasWallet ETHEREUM),
        AlertShown ''Wallet Required''
          ''You need to create or import a wallet before connecting to dApps.''
          [''Cancel'', ''Create Wallet'']] \<and>
   replies (trace (sessionProposalListener sampleExt readyWorld sampleProposal [''Cancel''])) =
     []"
proof -
  have "\<not> hasWallet readyWorld ETHEREUM"
    by (simp add: hasWallet_def readyWorld_fields)
  then show ?thesis
    by (simp add: sessionProposalListener_def handleSessionProposal_no_wallet_not_tapped
        walletRequiredForDapps_def readyWorld_fields)
qed

end
